theory Spec2Isabelle
  imports Main "HOL-Library.Word"
begin

section \<open>Access model (runtime/ast/access.go)\<close>

text \<open>
  Entitlements are held as a slice of pointers to nominal types, and the subset test
  keys a Go map by those pointers: identity is the address, not the name. A pointer is
  modelled as a natural number.

  The interface \<open>EntitlementSet\<close> has the two implementations of the file, so it is a
  datatype with two constructors. A nil interface value in the \<open>EntitlementSet\<close> field is
  outside the model: every method of \<open>EntitlementAccess\<close> that reads the field calls
  \<open>Entitlements()\<close> on it without a check.
\<close>

type_synonym NominalType_ptr = nat

datatype Separator = Disjunction | Conjunction

datatype EntitlementSet =
    ConjunctiveEntitlementSet "NominalType_ptr list"
  | DisjunctiveEntitlementSet "NominalType_ptr list"

fun Entitlements :: "EntitlementSet \<Rightarrow> NominalType_ptr list" where
  "Entitlements (ConjunctiveEntitlementSet Elements) = Elements"
| "Entitlements (DisjunctiveEntitlementSet Elements) = Elements"

fun Separator_of :: "EntitlementSet \<Rightarrow> Separator" where
  "Separator_of (ConjunctiveEntitlementSet Elements) = Conjunction"
| "Separator_of (DisjunctiveEntitlementSet Elements) = Disjunction"

datatype EntitlementAccess = NewEntitlementAccess (EntitlementSet: EntitlementSet)

text \<open>
  \<open>PrimitiveAccess\<close> is a \<open>uint8\<close> whose named values are numbered by \<open>iota\<close>; the type
  also holds the values 6 to 255, which have no name.
\<close>

type_synonym PrimitiveAccess = "8 word"

definition AccessNotSpecified :: PrimitiveAccess where "AccessNotSpecified = 0"
definition AccessPrivate :: PrimitiveAccess where "AccessPrivate = 1"
definition AccessContract :: PrimitiveAccess where "AccessContract = 2"
definition AccessAccount :: PrimitiveAccess where "AccessAccount = 3"
definition AccessPublic :: PrimitiveAccess where "AccessPublic = 4"
definition AccessPublicSettable :: PrimitiveAccess where "AccessPublicSettable = 5"

lemmas PrimitiveAccess_defs =
  AccessNotSpecified_def AccessPrivate_def AccessContract_def
  AccessAccount_def AccessPublic_def AccessPublicSettable_def

text \<open>
  A value of the interface \<open>Access\<close>: one of the two implementing types, or the nil
  interface value, which the type switch of \<open>IsLessPermissiveThan\<close> sends to its
  default branch.
\<close>

datatype Access =
    Primitive PrimitiveAccess
  | Entitlement EntitlementAccess
  | NilAccess

text \<open>
  \<open>subset\<close>, first loop: every entitlement of the other side becomes a key of
  \<open>otherSet\<close>.
\<close>

fun otherSet_insert ::
  "(NominalType_ptr \<rightharpoonup> unit) \<Rightarrow> NominalType_ptr list \<Rightarrow> (NominalType_ptr \<rightharpoonup> unit)" where
  "otherSet_insert otherSet [] = otherSet"
| "otherSet_insert otherSet (entitlement # rest) =
     otherSet_insert (otherSet(entitlement \<mapsto> ())) rest"

text \<open>\<open>subset\<close>, second loop: return false at the first entitlement that is not a key.\<close>

fun subset_loop :: "(NominalType_ptr \<rightharpoonup> unit) \<Rightarrow> NominalType_ptr list \<Rightarrow> bool" where
  "subset_loop otherSet [] = True"
| "subset_loop otherSet (entitlement # rest) =
     (case otherSet entitlement of
        None \<Rightarrow> False
      | Some _ \<Rightarrow> subset_loop otherSet rest)"

definition subset :: "EntitlementAccess \<Rightarrow> EntitlementAccess \<Rightarrow> bool" where
  "subset e other =
     (let otherEntitlements = Entitlements (EntitlementSet other);
          otherSet = otherSet_insert Map.empty otherEntitlements
      in subset_loop otherSet (Entitlements (EntitlementSet e)))"

fun IsLessPermissiveThan :: "EntitlementAccess \<Rightarrow> Access \<Rightarrow> bool" where
  "IsLessPermissiveThan e (Primitive other) =
     (other = AccessPublic \<or> other = AccessPublicSettable)"
| "IsLessPermissiveThan e (Entitlement other) = subset e other"
| "IsLessPermissiveThan e NilAccess = False"

text \<open>
  Modelled from the spec: the comparison of a \<open>PrimitiveAccess\<close> receiver is not in
  \<open>runtime/ast/access.go\<close>, which defines \<open>IsLessPermissiveThan\<close> for
  \<open>EntitlementAccess\<close> only. The spec (4.1): primitive against primitive, "compare
  enumeration order; returns true iff a's ordinal is strictly less than b's ordinal";
  primitive against entitlement, "not less permissive (returns false)". The ordinals are
  the \<open>uint8\<close> values of the source.
\<close>

fun PrimitiveAccess_IsLessPermissiveThan :: "PrimitiveAccess \<Rightarrow> Access \<Rightarrow> bool" where
  "PrimitiveAccess_IsLessPermissiveThan a (Primitive b) = (unat a < unat b)"
| "PrimitiveAccess_IsLessPermissiveThan a (Entitlement other) = False"
| "PrimitiveAccess_IsLessPermissiveThan a NilAccess = False"


section \<open>Interface checking (package sema)\<close>

subsection \<open>Data\<close>

text \<open>
  Positions, locations, composite kinds and declaration kinds come from packages that
  the checked file imports; the checker copies and compares them and never looks
  inside. \<open>common.CompositeKind\<close> and \<open>common.DeclarationKind\<close> are unsigned integers
  there. Declarations and semantic types are handled by pointer, and the elaboration
  keys its maps by those pointers.
\<close>

type_synonym Position = nat
type_synonym Location = nat
type_synonym CompositeKind = nat
type_synonym DeclarationKind = nat
type_synonym ContainerKind = nat
type_synonym decl_ptr = nat
type_synonym type_ptr = nat

record ast_Identifier =
  Identifier :: string
  Pos :: Position

text \<open>\<open>ast.NewRangeFromPositioned\<close>, applied to identifiers only in this file.\<close>

datatype Range = NewRangeFromPositioned ast_Identifier

text \<open>
  A value of the interface \<open>Type\<close>: a pointer to an interface type, a pointer to a
  composite type, or a type of any other kind. \<open>CompositeKindedType\<close> is the interface
  of the first two: the source asserts a \<open>CompositeKindedType\<close> to \<open>*InterfaceType\<close>,
  which Go accepts only for a type that implements the interface, and nested composite
  declarations ("type requirements") are the other composite-kinded types.
\<close>

datatype Type =
    InterfaceTypeRef type_ptr
  | CompositeTypeRef type_ptr
  | OtherType nat



text \<open>
  A member descriptor. \<open>MemberAccess\<close> and \<open>TypeAnnotation\<close> stand for the declared
  access and the declared type, which only the signature test reads.
\<close>

record Member =
  ContainerType :: Type
  MemberIdentifier :: ast_Identifier
  MemberDeclarationKind :: DeclarationKind
  HasConditions :: bool
  HasImplementation :: bool
  MemberAccess :: Access
  TypeAnnotation :: nat

text \<open>
  The ordered maps \<open>StringMemberOrderedMap\<close> and \<open>StringTypeOrderedMap\<close> are lists of
  pairs in insertion order. \<open>Foreach\<close> walks the list, \<open>Get\<close> is \<open>map_of\<close>, and \<open>Set\<close>
  replaces the value of a key that is present and appends a new key otherwise.
\<close>

fun OrderedMap_Set :: "'k \<Rightarrow> 'v \<Rightarrow> ('k \<times> 'v) list \<Rightarrow> ('k \<times> 'v) list" where
  "OrderedMap_Set k v [] = [(k, v)]"
| "OrderedMap_Set k v ((k', v') # rest) =
     (if k' = k then (k, v) # rest else (k', v') # OrderedMap_Set k v rest)"

record InterfaceType =
  TypeLocation :: Location
  TypeIdentifier :: string
  TypeCompositeKind :: CompositeKind
  NestedTypes :: "(string \<times> Type) list"
  Members :: "(string \<times> Member) list"
  Fields :: "string list"
  InitializerParameters :: "nat list"
  ExplicitInterfaceConformances :: "type_ptr list"
  containerType :: "Type option"

record CompositeType =
  CompositeIdentifier :: string
  CompositeCompositeKind :: CompositeKind
  compositeContainerType :: "Type option"

datatype SemanticError =
    InvalidImplementationError Position DeclarationKind DeclarationKind
  | InvalidInterfaceDeclarationError CompositeKind Range
  | InterfaceMemberConflictError type_ptr type_ptr string DeclarationKind DeclarationKind Range
  | OtherError nat

text \<open>
  The faults that end the checking of the compilation unit: the panic with
  \<open>errors.NewUnreachableError()\<close>, and the two run-time panics of Go that the code can
  run into, a failed type assertion and the use of a nil pointer or nil interface value.
\<close>

datatype Fault = UnreachableError | TypeAssertionFailed | NilPointerDereference

text \<open>What the checker reads of a nested declaration (a value of \<open>ast.Declaration\<close>).\<close>

record Declaration =
  DeclarationIdentifier :: "ast_Identifier option"
  DeclarationKind :: DeclarationKind
  DeclarationAccess :: Access
  DeclarationDocString :: string

record Elaboration =
  InterfaceDeclarationTypes :: "decl_ptr \<rightharpoonup> type_ptr"
  InterfaceTypeDeclarations :: "type_ptr \<rightharpoonup> decl_ptr"
  InterfaceNestedDeclarations :: "decl_ptr \<rightharpoonup> (string \<rightharpoonup> Declaration)"

text \<open>
  The checker. \<open>interfaceTypes\<close> and \<open>compositeTypes\<close> are the store of the semantic
  type objects, which the passes update in place through pointers; \<open>nextType\<close> is the
  next unused address. A pointer without an object in the store stands for nil: reading
  or writing through it ends the run with \<open>NilPointerDereference\<close>. \<open>typeActivations\<close> is the scope stack of types, of a type \<open>'ta\<close>
  that only its own methods know; \<open>collaboratorState\<close> is everything else that the
  functions outside the checked file keep in the checker (value scopes, occurrences).
\<close>

record ('ta, 'x) Checker =
  errors :: "SemanticError list"
  Elaboration :: Elaboration
  containerTypes :: "Type \<rightharpoonup> bool"
  interfaceTypes :: "type_ptr \<rightharpoonup> InterfaceType"
  compositeTypes :: "type_ptr \<rightharpoonup> CompositeType"
  nextType :: type_ptr
  CheckerLocation :: Location
  PositionInfo :: bool
  typeActivations :: 'ta
  collaboratorState :: 'x

text \<open>
  Modelled from the spec: \<open>checker.report\<close> is not in the checked file. The spec (6, 7):
  a diagnostic reporter that accepts structured errors without halting the pass; the
  diagnostics accumulate. The source hands it the error result of \<open>declareType\<close> as it
  comes, so a nil error adds nothing.
\<close>

definition report ::
  "SemanticError option \<Rightarrow> ('ta, 'x) Checker \<Rightarrow> ('ta, 'x) Checker" where
  "report err checker =
     (case err of
        None \<Rightarrow> checker
      | Some e \<Rightarrow> checker\<lparr>errors := errors checker @ [e]\<rparr>)"



subsection \<open>Declarations (package ast)\<close>

text \<open>
  Of a function block the checker asks \<open>HasStatements()\<close>, \<open>PreConditions.IsEmpty()\<close>,
  \<open>PostConditions.IsEmpty()\<close> and \<open>StartPosition()\<close>; the block is the record of the
  four answers. \<open>FunctionBlock = None\<close> is the nil block of a function without a body.
\<close>

record FunctionBlock =
  StartPosition :: Position
  HasStatements :: bool
  PreConditions_IsEmpty :: bool
  PostConditions_IsEmpty :: bool

record FunctionDeclaration =
  FunctionIdentifier :: ast_Identifier
  FunctionBlock :: "FunctionBlock option"
  FunctionEndPosition :: Position

type_synonym CompositeDeclaration = decl_ptr

text \<open>
  An interface declaration: its address, the fields that the checked file reads, and
  of its members the functions, the nested interfaces and the nested composites.
  Fields, initializers, destructors and special functions only travel to functions
  outside the checked file, which receive the declaration as a whole.
\<close>

datatype InterfaceDeclaration = InterfaceDeclaration
  (Decl_ptr: decl_ptr)
  (Decl_Access: Access)
  (Decl_CompositeKind: CompositeKind)
  (Decl_Identifier: ast_Identifier)
  (Decl_DocString: string)
  (Decl_StartPos: Position)
  (Decl_EndPosition: Position)
  (Decl_Functions: "FunctionDeclaration list")
  (Decl_Interfaces: "InterfaceDeclaration list")
  (Decl_Composites: "CompositeDeclaration list")

record typeDeclaration =
  td_identifier :: ast_Identifier
  td_ty :: Type
  td_declarationKind :: DeclarationKind
  td_access :: Access
  td_docString :: string
  td_allowOuterScopeShadowing :: bool

record functionDeclarationOptions =
  mustExit :: bool
  declareFunction :: bool
  checkResourceLoss :: bool

subsection \<open>Functions outside the checked file\<close>

text \<open>
  The checked file calls into the rest of the checker and into the packages \<open>ast\<close> and
  \<open>common\<close>. Those functions are parameters of the model, collected in one record.
  The methods of \<open>typeActivations\<close> act on the scope stack alone. A method of the
  checker may change the whole checker, so it is a function from checker to checker,
  with a result where the source uses one. Each of them is taken to return; what the
  model says about faults is about the panics of the checked file.

  \<open>ForeachDistinct\<close> gives the conformances in the order in which the source's callback
  receives them (the callback always asks to go on).
\<close>

record ('ta, 'x) Collaborators =
  ContainerKindInterface :: ContainerKind
  CompositeKindContract :: CompositeKind
  DeclarationKindFunction :: DeclarationKind
  SupportsInterfaces :: "CompositeKind \<Rightarrow> bool"
  CompositeKind_DeclarationKind :: "CompositeKind \<Rightarrow> bool \<Rightarrow> DeclarationKind"
  Decl_DeclarationKind :: "InterfaceDeclaration \<Rightarrow> DeclarationKind"
  Enter :: "'ta \<Rightarrow> 'ta"
  Leave :: "Position \<Rightarrow> 'ta \<Rightarrow> 'ta"
  declareType :: "typeDeclaration \<Rightarrow> 'ta \<Rightarrow> (nat option \<times> SemanticError option) \<times> 'ta"
  recordVariableDeclarationOccurrence ::
    "string \<Rightarrow> nat \<Rightarrow> ('ta, 'x) Checker \<Rightarrow> ('ta, 'x) Checker"
  explicitInterfaceConformances ::
    "InterfaceDeclaration \<Rightarrow> type_ptr \<Rightarrow> ('ta, 'x) Checker \<Rightarrow> type_ptr list \<times> ('ta, 'x) Checker"
  ForeachDistinct :: "('ta, 'x) Checker \<Rightarrow> type_ptr list \<Rightarrow> type_ptr list"
  enterValueScope :: "('ta, 'x) Checker \<Rightarrow> ('ta, 'x) Checker"
  leaveValueScope :: "Position \<Rightarrow> bool \<Rightarrow> ('ta, 'x) Checker \<Rightarrow> ('ta, 'x) Checker"
  declareNestedDeclarations ::
    "CompositeKind \<Rightarrow> DeclarationKind \<Rightarrow> CompositeDeclaration list \<Rightarrow> InterfaceDeclaration list
       \<Rightarrow> ('ta, 'x) Checker
       \<Rightarrow> ((string \<rightharpoonup> Declaration) \<times> type_ptr list \<times> type_ptr list) \<times> ('ta, 'x) Checker"
  defaultMembersAndOrigins ::
    "InterfaceDeclaration \<Rightarrow> type_ptr \<Rightarrow> ContainerKind \<Rightarrow> DeclarationKind
       \<Rightarrow> ('ta, 'x) Checker
       \<Rightarrow> ((string \<times> Member) list \<times> string list \<times> nat) \<times> ('ta, 'x) Checker"
  checkMemberStorability :: "(string \<times> Member) list \<Rightarrow> ('ta, 'x) Checker \<Rightarrow> ('ta, 'x) Checker"
  recordMemberOrigins :: "type_ptr \<Rightarrow> nat \<Rightarrow> ('ta, 'x) Checker \<Rightarrow> ('ta, 'x) Checker"
  initializerParameters ::
    "InterfaceDeclaration \<Rightarrow> ('ta, 'x) Checker \<Rightarrow> nat list \<times> ('ta, 'x) Checker"
  declareCompositeMembersAndValue ::
    "CompositeDeclaration \<Rightarrow> ContainerKind \<Rightarrow> ('ta, 'x) Checker \<Rightarrow> ('ta, 'x) Checker"
  checkConformanceKindMatch ::
    "InterfaceDeclaration \<Rightarrow> type_ptr \<Rightarrow> type_ptr \<Rightarrow> ('ta, 'x) Checker \<Rightarrow> ('ta, 'x) Checker"
  memberSatisfied :: "('ta, 'x) Checker \<Rightarrow> type_ptr \<Rightarrow> Member \<Rightarrow> Member \<Rightarrow> bool"
  declareSelfValue :: "Type \<Rightarrow> string \<Rightarrow> ('ta, 'x) Checker \<Rightarrow> ('ta, 'x) Checker"
  visitFunctionDeclaration ::
    "FunctionDeclaration \<Rightarrow> functionDeclarationOptions \<Rightarrow> ('ta, 'x) Checker \<Rightarrow> ('ta, 'x) Checker"
  checkDeclarationAccessModifier ::
    "Access \<Rightarrow> DeclarationKind \<Rightarrow> Position \<Rightarrow> bool \<Rightarrow> ('ta, 'x) Checker \<Rightarrow> ('ta, 'x) Checker"
  checkFieldsAccessModifier :: "InterfaceDeclaration \<Rightarrow> ('ta, 'x) Checker \<Rightarrow> ('ta, 'x) Checker"
  checkNestedIdentifiers :: "InterfaceDeclaration \<Rightarrow> ('ta, 'x) Checker \<Rightarrow> ('ta, 'x) Checker"
  checkInitializers ::
    "InterfaceDeclaration \<Rightarrow> type_ptr \<Rightarrow> DeclarationKind \<Rightarrow> string \<Rightarrow> nat list \<Rightarrow> ContainerKind
       \<Rightarrow> ('ta, 'x) Checker \<Rightarrow> ('ta, 'x) Checker"
  checkUnknownSpecialFunctions :: "InterfaceDeclaration \<Rightarrow> ('ta, 'x) Checker \<Rightarrow> ('ta, 'x) Checker"
  checkSpecialFunctionDefaultImplementation ::
    "InterfaceDeclaration \<Rightarrow> DeclarationKind \<Rightarrow> ('ta, 'x) Checker \<Rightarrow> ('ta, 'x) Checker"
  checkResourceFieldNesting ::
    "(string \<times> Member) list \<Rightarrow> CompositeKind \<Rightarrow> type_ptr \<Rightarrow> InterfaceDeclaration
       \<Rightarrow> ('ta, 'x) Checker \<Rightarrow> ('ta, 'x) Checker"
  checkDestructors ::
    "InterfaceDeclaration \<Rightarrow> (string \<times> Member) list \<Rightarrow> type_ptr \<Rightarrow> DeclarationKind \<Rightarrow> string
       \<Rightarrow> ContainerKind \<Rightarrow> ('ta, 'x) Checker \<Rightarrow> ('ta, 'x) Checker"
  visitCompositeDeclaration ::
    "CompositeDeclaration \<Rightarrow> ContainerKind \<Rightarrow> ('ta, 'x) Checker \<Rightarrow> ('ta, 'x) Checker"

text \<open>A loop whose body may end the run with a fault.\<close>

fun Foreach :: "('a \<Rightarrow> 's \<Rightarrow> Fault + 's) \<Rightarrow> 'a list \<Rightarrow> 's \<Rightarrow> Fault + 's" where
  "Foreach f [] s = Inr s"
| "Foreach f (x # xs) s =
     (case f x s of
        Inl fault \<Rightarrow> Inl fault
      | Inr s' \<Rightarrow> Foreach f xs s')"

subsection \<open>checkDuplicateInterfaceMembers\<close>

definition checkDuplicateInterfaceMembers ::
  "('ta, 'x) Collaborators \<Rightarrow> type_ptr \<Rightarrow> Member \<Rightarrow> type_ptr \<Rightarrow> Member \<Rightarrow> (unit \<Rightarrow> Range)
     \<Rightarrow> ('ta, 'x) Checker \<Rightarrow> ('ta, 'x) Checker" where
  "checkDuplicateInterfaceMembers C interfaceType interfaceMember
       conflictingInterfaceType conflictingMember getRange checker =
     (let reportMemberConflictError =
            report (Some (InterfaceMemberConflictError
                            interfaceType
                            conflictingInterfaceType
                            (Identifier (MemberIdentifier interfaceMember))
                            (MemberDeclarationKind interfaceMember)
                            (MemberDeclarationKind conflictingMember)
                            (getRange ())))
      in if \<not> memberSatisfied C checker interfaceType interfaceMember conflictingMember
         then reportMemberConflictError checker
         else if HasConditions interfaceMember \<or>
                 HasImplementation interfaceMember \<or>
                 HasConditions conflictingMember \<or>
                 HasImplementation conflictingMember
         then reportMemberConflictError checker
         else checker)"

subsection \<open>checkInterfaceConformance\<close>







subsection \<open>checkInterfaceFunctions\<close>

text \<open>The function literal that the loop calls for each function.\<close>

definition checkInterfaceFunction ::
  "('ta, 'x) Collaborators \<Rightarrow> Type \<Rightarrow> DeclarationKind \<Rightarrow> string \<Rightarrow> FunctionDeclaration
     \<Rightarrow> ('ta, 'x) Checker \<Rightarrow> ('ta, 'x) Checker" where
  "checkInterfaceFunction C selfType declarationKind selfDocString function checker =
     (let checker1 = enterValueScope C checker;
          checker2 = declareSelfValue C selfType selfDocString checker1;
          (mustExit, checkResourceLoss, checker3) =
            (case FunctionBlock function of
               None \<Rightarrow> (False, False, checker2)
             | Some block \<Rightarrow>
                 if HasStatements block then (True, True, checker2)
                 else if PreConditions_IsEmpty block \<and> PostConditions_IsEmpty block
                 then (False, False,
                       report (Some (InvalidImplementationError
                                       (StartPosition block)
                                       declarationKind
                                       (DeclarationKindFunction C)))
                         checker2)
                 else (False, False, checker2));
          checker4 = visitFunctionDeclaration C function
                       \<lparr>mustExit = mustExit,
                        declareFunction = False,
                        checkResourceLoss = checkResourceLoss\<rparr>
                       checker3
      in leaveValueScope C (FunctionEndPosition function) False checker4)"

fun checkInterfaceFunctions ::
  "('ta, 'x) Collaborators \<Rightarrow> FunctionDeclaration list \<Rightarrow> Type \<Rightarrow> DeclarationKind \<Rightarrow> string
     \<Rightarrow> ('ta, 'x) Checker \<Rightarrow> ('ta, 'x) Checker" where
  "checkInterfaceFunctions C [] selfType declarationKind selfDocString checker = checker"
| "checkInterfaceFunctions C (function # functions) selfType declarationKind selfDocString checker =
     checkInterfaceFunctions C functions selfType declarationKind selfDocString
       (checkInterfaceFunction C selfType declarationKind selfDocString function checker)"


subsection \<open>declareInterfaceNestedTypes\<close>



subsection \<open>declareInterfaceType\<close>

text \<open>
  Modelled from the spec: \<open>SetContainerType\<close> of \<open>InterfaceType\<close> and of \<open>CompositeType\<close>
  is not in the checked file. It is taken as the setter that its name says: the nested
  type object records the container (spec 3: a back-reference to the owning container
  type).

  The two loops at the end of \<open>declareInterfaceType\<close>: the nested type is entered in
  \<open>NestedTypes\<close> of the interface type under its own identifier, then its container is
  set. Each access goes through the store, so a nested pointer that is the interface
  type itself is handled as the source would.
\<close>

definition linkNestedInterfaceType ::
  "type_ptr \<Rightarrow> type_ptr \<Rightarrow> ('ta, 'x) Checker \<Rightarrow> Fault + ('ta, 'x) Checker" where
  "linkNestedInterfaceType interfaceType nestedInterfaceType checker =
     (case interfaceTypes checker nestedInterfaceType of
        None \<Rightarrow> Inl NilPointerDereference
      | Some n \<Rightarrow>
          (case interfaceTypes checker interfaceType of
             None \<Rightarrow> Inl NilPointerDereference
           | Some t \<Rightarrow>
               let store1 = (interfaceTypes checker)
                     (interfaceType \<mapsto>
                        t\<lparr>NestedTypes :=
                             OrderedMap_Set (TypeIdentifier n)
                               (InterfaceTypeRef nestedInterfaceType) (NestedTypes t)\<rparr>)
               in (case store1 nestedInterfaceType of
                     None \<Rightarrow> Inl NilPointerDereference
                   | Some n' \<Rightarrow>
                       Inr (checker\<lparr>interfaceTypes :=
                              store1(nestedInterfaceType \<mapsto>
                                n'\<lparr>containerType := Some (InterfaceTypeRef interfaceType)\<rparr>)\<rparr>))))"

definition linkNestedCompositeType ::
  "type_ptr \<Rightarrow> type_ptr \<Rightarrow> ('ta, 'x) Checker \<Rightarrow> Fault + ('ta, 'x) Checker" where
  "linkNestedCompositeType interfaceType nestedCompositeType checker =
     (case compositeTypes checker nestedCompositeType of
        None \<Rightarrow> Inl NilPointerDereference
      | Some n \<Rightarrow>
          (case interfaceTypes checker interfaceType of
             None \<Rightarrow> Inl NilPointerDereference
           | Some t \<Rightarrow>
               Inr (checker
                     \<lparr>interfaceTypes := (interfaceTypes checker)
                        (interfaceType \<mapsto>
                           t\<lparr>NestedTypes :=
                                OrderedMap_Set (CompositeIdentifier n)
                                  (CompositeTypeRef nestedCompositeType) (NestedTypes t)\<rparr>),
                      compositeTypes := (compositeTypes checker)
                        (nestedCompositeType \<mapsto>
                           n\<lparr>compositeContainerType := Some (InterfaceTypeRef interfaceType)\<rparr>)\<rparr>)))"

text \<open>
  \<open>declareInterfaceType\<close> up to the two assignments to the elaboration: the type object
  is allocated, declared in the type scope, its conformances are resolved, and it is
  recorded under the declaration and the declaration under it.
\<close>

definition declareInterfaceType_record ::
  "('ta, 'x) Collaborators \<Rightarrow> InterfaceDeclaration \<Rightarrow> ('ta, 'x) Checker
     \<Rightarrow> Fault + type_ptr \<times> ('ta, 'x) Checker" where
  "declareInterfaceType_record C declaration checker =
     (let identifier = Decl_Identifier declaration;
          interfaceType = nextType checker;
          checker1 = checker
            \<lparr>interfaceTypes := (interfaceTypes checker)
               (interfaceType \<mapsto>
                  \<lparr>TypeLocation = CheckerLocation checker,
                   TypeIdentifier = Identifier identifier,
                   TypeCompositeKind = Decl_CompositeKind declaration,
                   NestedTypes = [],
                   Members = [],
                   Fields = [],
                   InitializerParameters = [],
                   ExplicitInterfaceConformances = [],
                   containerType = None\<rparr>),
             nextType := Suc interfaceType\<rparr>;
          ((variable, err), activations) =
            declareType C
              \<lparr>td_identifier = identifier,
               td_ty = InterfaceTypeRef interfaceType,
               td_declarationKind = Decl_DeclarationKind C declaration,
               td_access = Decl_Access declaration,
               td_docString = Decl_DocString declaration,
               td_allowOuterScopeShadowing = False\<rparr>
              (typeActivations checker1);
          checker2 = report err (checker1\<lparr>typeActivations := activations\<rparr>);
          checker3 =
            (if PositionInfo checker2
             then (case variable of
                     None \<Rightarrow> checker2
                   | Some v \<Rightarrow>
                       recordVariableDeclarationOccurrence C (Identifier identifier) v checker2)
             else checker2);
          (conformances, checker4) =
            explicitInterfaceConformances C declaration interfaceType checker3
      in case interfaceTypes checker4 interfaceType of
           None \<Rightarrow> Inl NilPointerDereference
         | Some t \<Rightarrow>
             Inr (interfaceType,
                  checker4
                    \<lparr>interfaceTypes := (interfaceTypes checker4)
                       (interfaceType \<mapsto> t\<lparr>ExplicitInterfaceConformances := conformances\<rparr>),
                     Elaboration := (Elaboration checker4)
                       \<lparr>InterfaceDeclarationTypes :=
                          (InterfaceDeclarationTypes (Elaboration checker4))
                            (Decl_ptr declaration \<mapsto> interfaceType),
                        InterfaceTypeDeclarations :=
                          (InterfaceTypeDeclarations (Elaboration checker4))
                            (interfaceType \<mapsto> Decl_ptr declaration)\<rparr>\<rparr>))"

text \<open>
  \<open>declareInterfaceType\<close> from "Activate new scope for nested declarations" to the
  return. The two deferred calls run last, the later one first.
\<close>

definition declareInterfaceType_nested ::
  "('ta, 'x) Collaborators \<Rightarrow> InterfaceDeclaration \<Rightarrow> type_ptr \<Rightarrow> ('ta, 'x) Checker
     \<Rightarrow> Fault + type_ptr \<times> ('ta, 'x) Checker" where
  "declareInterfaceType_nested C declaration interfaceType checker =
     (let checker1 = checker\<lparr>typeActivations := Enter C (typeActivations checker)\<rparr>;
          checker2 = enterValueScope C checker1;
          ((nestedDeclarations, nestedInterfaceTypes, nestedCompositeTypes), checker3) =
            declareNestedDeclarations C
              (Decl_CompositeKind declaration)
              (Decl_DeclarationKind C declaration)
              (Decl_Composites declaration)
              (Decl_Interfaces declaration)
              checker2;
          checker4 = checker3
            \<lparr>Elaboration := (Elaboration checker3)
               \<lparr>InterfaceNestedDeclarations :=
                  (InterfaceNestedDeclarations (Elaboration checker3))
                    (Decl_ptr declaration \<mapsto> nestedDeclarations)\<rparr>\<rparr>
      in case Foreach (linkNestedInterfaceType interfaceType) nestedInterfaceTypes checker4 of
           Inl fault \<Rightarrow> Inl fault
         | Inr checker5 \<Rightarrow>
             (case Foreach (linkNestedCompositeType interfaceType) nestedCompositeTypes checker5 of
                Inl fault \<Rightarrow> Inl fault
              | Inr checker6 \<Rightarrow>
                  let checker7 = leaveValueScope C (Decl_EndPosition declaration) False checker6;
                      checker8 = checker7
                        \<lparr>typeActivations :=
                           Leave C (Decl_EndPosition declaration) (typeActivations checker7)\<rparr>
                  in Inr (interfaceType, checker8)))"

definition declareInterfaceType ::
  "('ta, 'x) Collaborators \<Rightarrow> InterfaceDeclaration \<Rightarrow> ('ta, 'x) Checker
     \<Rightarrow> Fault + type_ptr \<times> ('ta, 'x) Checker" where
  "declareInterfaceType C declaration checker =
     (case declareInterfaceType_record C declaration checker of
        Inl fault \<Rightarrow> Inl fault
      | Inr (interfaceType, checker1) \<Rightarrow>
          let checker2 =
                (if \<not> SupportsInterfaces C (Decl_CompositeKind declaration)
                 then report (Some (InvalidInterfaceDeclarationError
                                      (Decl_CompositeKind declaration)
                                      (NewRangeFromPositioned (Decl_Identifier declaration))))
                        checker1
                 else checker1)
          in declareInterfaceType_nested C declaration interfaceType checker2)"


subsection \<open>declareInterfaceMembers\<close>




subsection \<open>VisitInterfaceDeclaration\<close>




subsection \<open>A concrete checker for running the model\<close>

text \<open>
  An instance of the functions outside the checked file, small enough to evaluate:
  scopes are counted, the checks report nothing, two members have matching signatures
  when their declaration kinds and type annotations agree, and
  \<open>declareNestedDeclarations\<close> allocates one interface type for each nested interface
  declaration and records it in the elaboration.
\<close>

fun example_declareNestedInterfaces ::
  "InterfaceDeclaration list \<Rightarrow> (nat, nat) Checker
     \<Rightarrow> ((string \<times> Declaration) list \<times> type_ptr list) \<times> (nat, nat) Checker" where
  "example_declareNestedInterfaces [] s = (([], []), s)"
| "example_declareNestedInterfaces (d # ds) s =
     (let p = nextType s;
          s1 = s\<lparr>interfaceTypes := (interfaceTypes s)
                    (p \<mapsto>
                       \<lparr>TypeLocation = CheckerLocation s,
                        TypeIdentifier = Identifier (Decl_Identifier d),
                        TypeCompositeKind = Decl_CompositeKind d,
                        NestedTypes = [],
                        Members = [],
                        Fields = [],
                        InitializerParameters = [],
                        ExplicitInterfaceConformances = [],
                        containerType = None\<rparr>),
                  nextType := Suc p,
                  Elaboration := (Elaboration s)
                    \<lparr>InterfaceDeclarationTypes :=
                       (InterfaceDeclarationTypes (Elaboration s))(Decl_ptr d \<mapsto> p),
                     InterfaceTypeDeclarations :=
                       (InterfaceTypeDeclarations (Elaboration s))(p \<mapsto> Decl_ptr d)\<rparr>\<rparr>
      in case example_declareNestedInterfaces ds s1 of
           ((declarations, pointers), s2) \<Rightarrow>
             (((Identifier (Decl_Identifier d),
                \<lparr>DeclarationIdentifier = Some (Decl_Identifier d),
                 DeclarationKind = 20 + Decl_CompositeKind d,
                 DeclarationAccess = Decl_Access d,
                 DeclarationDocString = Decl_DocString d\<rparr>) # declarations,
               p # pointers),
              s2))"

definition example_collaborators :: "(nat, nat) Collaborators" where
  "example_collaborators =
     \<lparr>ContainerKindInterface = 1,
      CompositeKindContract = 3,
      DeclarationKindFunction = 4,
      SupportsInterfaces = (\<lambda>k. k = 1 \<or> k = 2 \<or> k = 3),
      CompositeKind_DeclarationKind = (\<lambda>k isInterface. if isInterface then 20 + k else 10 + k),
      Decl_DeclarationKind = (\<lambda>d. 20 + Decl_CompositeKind d),
      Enter = Suc,
      Leave = (\<lambda>pos ta. ta - 1),
      declareType = (\<lambda>td ta. ((Some 0, None), ta)),
      recordVariableDeclarationOccurrence = (\<lambda>name v s. s),
      explicitInterfaceConformances = (\<lambda>d p s. ([], s)),
      ForeachDistinct = (\<lambda>s ps. remdups ps),
      enterValueScope = (\<lambda>s. s\<lparr>collaboratorState := Suc (collaboratorState s)\<rparr>),
      leaveValueScope = (\<lambda>pos b s. s\<lparr>collaboratorState := collaboratorState s - 1\<rparr>),
      declareNestedDeclarations =
        (\<lambda>k dk composites interfaces s.
           case example_declareNestedInterfaces interfaces s of
             ((declarations, pointers), s') \<Rightarrow> ((map_of declarations, pointers, []), s')),
      defaultMembersAndOrigins = (\<lambda>d p ck dk s. (([], [], 0), s)),
      checkMemberStorability = (\<lambda>members s. s),
      recordMemberOrigins = (\<lambda>p origins s. s),
      initializerParameters = (\<lambda>d s. ([], s)),
      declareCompositeMembersAndValue = (\<lambda>c k s. s),
      checkConformanceKindMatch = (\<lambda>d p q s. s),
      memberSatisfied =
        (\<lambda>s p m m'. MemberDeclarationKind m = MemberDeclarationKind m' \<and>
                     TypeAnnotation m = TypeAnnotation m'),
      declareSelfValue = (\<lambda>t doc s. s),
      visitFunctionDeclaration = (\<lambda>f options s. s),
      checkDeclarationAccessModifier = (\<lambda>a dk pos b s. s),
      checkFieldsAccessModifier = (\<lambda>d s. s),
      checkNestedIdentifiers = (\<lambda>d s. s),
      checkInitializers = (\<lambda>d p dk doc parameters k s. s),
      checkUnknownSpecialFunctions = (\<lambda>d s. s),
      checkSpecialFunctionDefaultImplementation = (\<lambda>d dk s. s),
      checkResourceFieldNesting = (\<lambda>members k p d s. s),
      checkDestructors = (\<lambda>d members p dk doc k s. s),
      visitCompositeDeclaration = (\<lambda>c k s. s)\<rparr>"

text \<open>
  Interfaces \<open>A\<close> (at address 2) and \<open>B\<close> (at 3) both declare \<open>f\<close> with a default
  implementation, and \<open>A\<close> declares a bare \<open>g\<close>. Interface \<open>C\<close> (at 1) conforms to both
  and declares a bare \<open>g\<close> of its own. \<open>A\<close> has a nested interface \<open>N\<close> (at 4), \<open>B\<close> and
  \<open>C\<close> each have a nested composite \<open>N\<close> (composites 5 and 6).
\<close>

definition member_f_A :: Member where
  "member_f_A =
     \<lparr>ContainerType = InterfaceTypeRef 2,
      MemberIdentifier = \<lparr>Identifier = ''f'', Pos = 7\<rparr>,
      MemberDeclarationKind = 4,
      HasConditions = False,
      HasImplementation = True,
      MemberAccess = Primitive AccessPublic,
      TypeAnnotation = 11\<rparr>"

definition member_f_B :: Member where
  "member_f_B =
     \<lparr>ContainerType = InterfaceTypeRef 3,
      MemberIdentifier = \<lparr>Identifier = ''f'', Pos = 9\<rparr>,
      MemberDeclarationKind = 4,
      HasConditions = False,
      HasImplementation = True,
      MemberAccess = Primitive AccessPublic,
      TypeAnnotation = 11\<rparr>"

definition member_g_A :: Member where
  "member_g_A =
     \<lparr>ContainerType = InterfaceTypeRef 2,
      MemberIdentifier = \<lparr>Identifier = ''g'', Pos = 8\<rparr>,
      MemberDeclarationKind = 4,
      HasConditions = False,
      HasImplementation = False,
      MemberAccess = Primitive AccessPublic,
      TypeAnnotation = 12\<rparr>"

definition member_g_C :: Member where
  "member_g_C =
     \<lparr>ContainerType = InterfaceTypeRef 1,
      MemberIdentifier = \<lparr>Identifier = ''g'', Pos = 3\<rparr>,
      MemberDeclarationKind = 4,
      HasConditions = False,
      HasImplementation = False,
      MemberAccess = Primitive AccessPublic,
      TypeAnnotation = 12\<rparr>"

definition example_interfaceType ::
  "string \<Rightarrow> (string \<times> Type) list \<Rightarrow> (string \<times> Member) list \<Rightarrow> type_ptr list \<Rightarrow> InterfaceType" where
  "example_interfaceType name nested members conformances =
     \<lparr>TypeLocation = 0,
      TypeIdentifier = name,
      TypeCompositeKind = 2,
      NestedTypes = nested,
      Members = members,
      Fields = [],
      InitializerParameters = [],
      ExplicitInterfaceConformances = conformances,
      containerType = None\<rparr>"

definition example_checker :: "(nat, nat) Checker" where
  "example_checker =
     \<lparr>errors = [],
      Elaboration =
        \<lparr>InterfaceDeclarationTypes = Map.empty,
         InterfaceTypeDeclarations = Map.empty,
         InterfaceNestedDeclarations = Map.empty\<rparr>,
      containerTypes = Map.empty,
      interfaceTypes = map_of
        [(1, example_interfaceType ''C'' [(''N'', CompositeTypeRef 6)] [(''g'', member_g_C)] [2, 3]),
         (2, example_interfaceType ''A'' [(''N'', InterfaceTypeRef 4)]
               [(''f'', member_f_A), (''g'', member_g_A)] []),
         (3, example_interfaceType ''B'' [(''N'', CompositeTypeRef 5)] [(''f'', member_f_B)] []),
         (4, example_interfaceType ''N'' [] [] [])],
      compositeTypes = map_of
        [(5, \<lparr>CompositeIdentifier = ''N'', CompositeCompositeKind = 2,
               compositeContainerType = Some (InterfaceTypeRef 3)\<rparr>),
         (6, \<lparr>CompositeIdentifier = ''N'', CompositeCompositeKind = 2,
               compositeContainerType = Some (InterfaceTypeRef 1)\<rparr>)],
      nextType = 10,
      CheckerLocation = 0,
      PositionInfo = False,
      typeActivations = 0,
      collaboratorState = 0\<rparr>"

definition example_declaration :: "string \<Rightarrow> decl_ptr \<Rightarrow> CompositeKind
     \<Rightarrow> FunctionDeclaration list \<Rightarrow> InterfaceDeclaration list \<Rightarrow> InterfaceDeclaration" where
  "example_declaration name address kind functions interfaces =
     InterfaceDeclaration address (Primitive AccessPublic) kind
       \<lparr>Identifier = name, Pos = address\<rparr> [] address (address + 50) functions interfaces []"


definition example_function :: "FunctionBlock option \<Rightarrow> FunctionDeclaration" where
  "example_function block =
     \<lparr>FunctionIdentifier = \<lparr>Identifier = ''f'', Pos = 7\<rparr>,
      FunctionBlock = block,
      FunctionEndPosition = 9\<rparr>"


definition example_enum_declaration :: InterfaceDeclaration where
  "example_enum_declaration =
     example_declaration ''E'' 200 5 [] [example_declaration ''N'' 201 5 [] []]"


subsection \<open>Relations between checker states\<close>

text \<open>
  These relations are not part of the checker; the proofs about the two linking loops
  of \<open>declareInterfaceType\<close> are stated with them. \<open>storeGrows p s s'\<close>: from \<open>s\<close> to \<open>s'\<close>
  only the type objects changed, none appeared or disappeared, each kept its location,
  identifier and kind, the keys of its nested types only grew, and a container that
  was \<open>p\<close> is still \<open>p\<close>. \<open>linkedInterface p n s\<close> and \<open>linkedComposite p n s\<close>: in \<open>s\<close> the
  type at \<open>n\<close> has the interface type at \<open>p\<close> as its container, and its identifier is a
  key of the nested types of \<open>p\<close>.
\<close>

definition storeGrows :: "type_ptr \<Rightarrow> ('ta, 'x) Checker \<Rightarrow> ('ta, 'x) Checker \<Rightarrow> bool" where
  "storeGrows p s s' \<longleftrightarrow>
     errors s' = errors s
     \<and> Elaboration s' = Elaboration s
     \<and> containerTypes s' = containerTypes s
     \<and> nextType s' = nextType s
     \<and> CheckerLocation s' = CheckerLocation s
     \<and> PositionInfo s' = PositionInfo s
     \<and> typeActivations s' = typeActivations s
     \<and> collaboratorState s' = collaboratorState s
     \<and> (\<forall>q. (interfaceTypes s' q = None) = (interfaceTypes s q = None))
     \<and> (\<forall>q. (compositeTypes s' q = None) = (compositeTypes s q = None))
     \<and> (\<forall>q obj obj'. interfaceTypes s q = Some obj \<longrightarrow> interfaceTypes s' q = Some obj' \<longrightarrow>
            TypeLocation obj' = TypeLocation obj
          \<and> TypeIdentifier obj' = TypeIdentifier obj
          \<and> TypeCompositeKind obj' = TypeCompositeKind obj
          \<and> fst ` set (NestedTypes obj) \<subseteq> fst ` set (NestedTypes obj')
          \<and> (containerType obj = Some (InterfaceTypeRef p)
               \<longrightarrow> containerType obj' = Some (InterfaceTypeRef p)))
     \<and> (\<forall>q obj obj'. compositeTypes s q = Some obj \<longrightarrow> compositeTypes s' q = Some obj' \<longrightarrow>
            CompositeIdentifier obj' = CompositeIdentifier obj
          \<and> CompositeCompositeKind obj' = CompositeCompositeKind obj
          \<and> (compositeContainerType obj = Some (InterfaceTypeRef p)
               \<longrightarrow> compositeContainerType obj' = Some (InterfaceTypeRef p)))"

definition linkedInterface :: "type_ptr \<Rightarrow> type_ptr \<Rightarrow> ('ta, 'x) Checker \<Rightarrow> bool" where
  "linkedInterface p n s \<longleftrightarrow>
     (\<exists>obj t. interfaceTypes s n = Some obj
            \<and> containerType obj = Some (InterfaceTypeRef p)
            \<and> interfaceTypes s p = Some t
            \<and> TypeIdentifier obj \<in> fst ` set (NestedTypes t))"

definition linkedComposite :: "type_ptr \<Rightarrow> type_ptr \<Rightarrow> ('ta, 'x) Checker \<Rightarrow> bool" where
  "linkedComposite p n s \<longleftrightarrow>
     (\<exists>obj t. compositeTypes s n = Some obj
            \<and> compositeContainerType obj = Some (InterfaceTypeRef p)
            \<and> interfaceTypes s p = Some t
            \<and> CompositeIdentifier obj \<in> fst ` set (NestedTypes t))"

section \<open>Properties of the access model\<close>

lemma dom_otherSet_insert:
  "dom (otherSet_insert otherSet es) = dom otherSet \<union> set es"
  by (induction es arbitrary: otherSet) auto

lemma subset_loop_iff:
  "subset_loop otherSet es \<longleftrightarrow> set es \<subseteq> dom otherSet"
  by (induction es) (auto split: option.splits)

lemma subset_iff:
  "subset e other \<longleftrightarrow>
     set (Entitlements (EntitlementSet e)) \<subseteq> set (Entitlements (EntitlementSet other))"
  by (simp add: subset_def subset_loop_iff dom_otherSet_insert)

text \<open>
  Claim C1. An entitlement access over the entitlements \<open>S1\<close> is less permissive than an
  entitlement access over \<open>S2\<close> exactly when every entitlement (pointer) of \<open>S1\<close> is one
  of \<open>S2\<close>; the four combinations of conjunctive and disjunctive sets give the same
  answer.
\<close>

theorem entitlement_subset_law:
  "(IsLessPermissiveThan (NewEntitlementAccess S1) (Entitlement (NewEntitlementAccess S2))
      \<longleftrightarrow> set (Entitlements S1) \<subseteq> set (Entitlements S2))
   \<and> IsLessPermissiveThan (NewEntitlementAccess (ConjunctiveEntitlementSet xs))
        (Entitlement (NewEntitlementAccess (ConjunctiveEntitlementSet ys)))
      = (set xs \<subseteq> set ys)
   \<and> IsLessPermissiveThan (NewEntitlementAccess (ConjunctiveEntitlementSet xs))
        (Entitlement (NewEntitlementAccess (DisjunctiveEntitlementSet ys)))
      = (set xs \<subseteq> set ys)
   \<and> IsLessPermissiveThan (NewEntitlementAccess (DisjunctiveEntitlementSet xs))
        (Entitlement (NewEntitlementAccess (ConjunctiveEntitlementSet ys)))
      = (set xs \<subseteq> set ys)
   \<and> IsLessPermissiveThan (NewEntitlementAccess (DisjunctiveEntitlementSet xs))
        (Entitlement (NewEntitlementAccess (DisjunctiveEntitlementSet ys)))
      = (set xs \<subseteq> set ys)"
  by (simp add: subset_iff)

text \<open>
  Claim C2. Against a primitive access, an entitlement access is less permissive exactly
  when the primitive is \<open>AccessPublic\<close> or \<open>AccessPublicSettable\<close>, whatever its
  entitlements; the answer is false for \<open>AccessNotSpecified\<close>, \<open>AccessPrivate\<close>,
  \<open>AccessContract\<close> and \<open>AccessAccount\<close> (and for the unnamed values of the \<open>uint8\<close>).
\<close>

theorem entitlement_vs_primitive_law:
  "(IsLessPermissiveThan e (Primitive p) \<longleftrightarrow> p = AccessPublic \<or> p = AccessPublicSettable)
   \<and> IsLessPermissiveThan e (Primitive AccessPublic)
   \<and> IsLessPermissiveThan e (Primitive AccessPublicSettable)
   \<and> \<not> IsLessPermissiveThan e (Primitive AccessNotSpecified)
   \<and> \<not> IsLessPermissiveThan e (Primitive AccessPrivate)
   \<and> \<not> IsLessPermissiveThan e (Primitive AccessContract)
   \<and> \<not> IsLessPermissiveThan e (Primitive AccessAccount)"
  by (simp add: PrimitiveAccess_defs)

text \<open>
  Claim C9. The comparison of entitlement accesses is reflexive, so it is not a strict
  order; an access with no entitlements is less permissive than every entitlement
  access, and is not less permissive than \<open>AccessNotSpecified\<close>, \<open>AccessPrivate\<close>,
  \<open>AccessContract\<close> or \<open>AccessAccount\<close>.
\<close>

theorem entitlement_reflexive_and_empty:
  "IsLessPermissiveThan e (Entitlement e)
   \<and> IsLessPermissiveThan (NewEntitlementAccess (ConjunctiveEntitlementSet [])) (Entitlement e')
   \<and> IsLessPermissiveThan (NewEntitlementAccess (DisjunctiveEntitlementSet [])) (Entitlement e')
   \<and> \<not> IsLessPermissiveThan (NewEntitlementAccess (ConjunctiveEntitlementSet []))
         (Primitive AccessNotSpecified)
   \<and> \<not> IsLessPermissiveThan (NewEntitlementAccess (ConjunctiveEntitlementSet []))
         (Primitive AccessPrivate)
   \<and> \<not> IsLessPermissiveThan (NewEntitlementAccess (ConjunctiveEntitlementSet []))
         (Primitive AccessContract)
   \<and> \<not> IsLessPermissiveThan (NewEntitlementAccess (ConjunctiveEntitlementSet []))
         (Primitive AccessAccount)
   \<and> \<not> IsLessPermissiveThan (NewEntitlementAccess (DisjunctiveEntitlementSet []))
         (Primitive AccessNotSpecified)
   \<and> \<not> IsLessPermissiveThan (NewEntitlementAccess (DisjunctiveEntitlementSet []))
         (Primitive AccessPrivate)
   \<and> \<not> IsLessPermissiveThan (NewEntitlementAccess (DisjunctiveEntitlementSet []))
         (Primitive AccessContract)
   \<and> \<not> IsLessPermissiveThan (NewEntitlementAccess (DisjunctiveEntitlementSet []))
         (Primitive AccessAccount)"
  by (simp add: subset_iff PrimitiveAccess_defs)

text \<open>
  Claim C6. On primitive accesses the comparison is the strict order of the ordinals:
  for every pair exactly one of "a less permissive than b", "b less permissive than a"
  and "a = b" holds, a is less permissive than b exactly when its ordinal is the
  smaller one, and the ordinals run 0 to 5 in the order NotSpecified, Private,
  Contract, Account, Public, PublicSettable.
\<close>

theorem primitive_permissiveness_total:
  "((PrimitiveAccess_IsLessPermissiveThan a (Primitive b)
       \<and> \<not> PrimitiveAccess_IsLessPermissiveThan b (Primitive a) \<and> a \<noteq> b)
    \<or> (PrimitiveAccess_IsLessPermissiveThan b (Primitive a)
       \<and> \<not> PrimitiveAccess_IsLessPermissiveThan a (Primitive b) \<and> a \<noteq> b)
    \<or> (a = b \<and> \<not> PrimitiveAccess_IsLessPermissiveThan a (Primitive b)
       \<and> \<not> PrimitiveAccess_IsLessPermissiveThan b (Primitive a)))
   \<and> (PrimitiveAccess_IsLessPermissiveThan a (Primitive b) \<longleftrightarrow> unat a < unat b)
   \<and> map unat [AccessNotSpecified, AccessPrivate, AccessContract,
                AccessAccount, AccessPublic, AccessPublicSettable] = [0, 1, 2, 3, 4, 5]
   \<and> PrimitiveAccess_IsLessPermissiveThan AccessNotSpecified (Primitive AccessPrivate)
   \<and> PrimitiveAccess_IsLessPermissiveThan AccessPrivate (Primitive AccessContract)
   \<and> PrimitiveAccess_IsLessPermissiveThan AccessContract (Primitive AccessAccount)
   \<and> PrimitiveAccess_IsLessPermissiveThan AccessAccount (Primitive AccessPublic)
   \<and> PrimitiveAccess_IsLessPermissiveThan AccessPublic (Primitive AccessPublicSettable)"
proof -
  have tri: "unat a < unat b \<or> unat b < unat a \<or> a = b"
    using word_unat_eq_iff [of a b] by linarith
  then show ?thesis
    by (auto simp: PrimitiveAccess_defs)
qed


section \<open>Properties of the interface checks\<close>


lemma report_Some: "report (Some e) checker = checker\<lparr>errors := errors checker @ [e]\<rparr>"
  by (simp add: report_def)

lemma report_None: "report None checker = checker"
  by (simp add: report_def)

text \<open>
  Claim C3. For two members \<open>x\<close> and \<open>y\<close> of the same name, the duplicate-member rule
  reports one member-conflict error exactly when the signatures do not match, or they
  match and \<open>x\<close> or \<open>y\<close> has a default implementation or conditions; otherwise (matching
  signatures, nothing but the signature on either side) the checker is left as it was.
\<close>

theorem duplicate_member_rule:
  "checkDuplicateInterfaceMembers C interfaceType x conflictingInterfaceType y getRange checker =
     (if \<not> memberSatisfied C checker interfaceType x y
         \<or> (memberSatisfied C checker interfaceType x y
            \<and> (HasImplementation x \<or> HasConditions x \<or> HasImplementation y \<or> HasConditions y))
      then checker\<lparr>errors := errors checker @
             [InterfaceMemberConflictError interfaceType conflictingInterfaceType
                (Identifier (MemberIdentifier x)) (MemberDeclarationKind x)
                (MemberDeclarationKind y) (getRange ())]\<rparr>
      else checker)"
  by (auto simp: checkDuplicateInterfaceMembers_def report_Some Let_def)

text \<open>
  The rule at work: \<open>f\<close> of \<open>B\<close> against \<open>f\<close> of \<open>A\<close> (same signature, default
  implementations), \<open>f\<close> of \<open>B\<close> against \<open>g\<close> of \<open>A\<close> (signatures differ), and the bare
  \<open>g\<close> of \<open>C\<close> against the bare \<open>g\<close> of \<open>A\<close>.
\<close>

theorem duplicate_member_rule_witness:
  "errors (checkDuplicateInterfaceMembers example_collaborators 3 member_f_B 2 member_f_A
             (\<lambda>_. NewRangeFromPositioned \<lparr>Identifier = ''C'', Pos = 1\<rparr>) example_checker)
     = [InterfaceMemberConflictError 3 2 ''f'' 4 4
          (NewRangeFromPositioned \<lparr>Identifier = ''C'', Pos = 1\<rparr>)]
   \<and> errors (checkDuplicateInterfaceMembers example_collaborators 3 member_f_B 2 member_g_A
             (\<lambda>_. NewRangeFromPositioned \<lparr>Identifier = ''C'', Pos = 1\<rparr>) example_checker)
     = [InterfaceMemberConflictError 3 2 ''f'' 4 4
          (NewRangeFromPositioned \<lparr>Identifier = ''C'', Pos = 1\<rparr>)]
   \<and> errors (checkDuplicateInterfaceMembers example_collaborators 1 member_g_C 2 member_g_A
             (\<lambda>_. NewRangeFromPositioned \<lparr>Identifier = ''g'', Pos = 3\<rparr>) example_checker)
     = []"
  using duplicate_member_rule [where C = example_collaborators and checker = example_checker
          and interfaceType = 3 and x = member_f_B and y = member_f_A
          and conflictingInterfaceType = 2
          and getRange = "\<lambda>_. NewRangeFromPositioned \<lparr>Identifier = ''C'', Pos = 1\<rparr>"]
        duplicate_member_rule [where C = example_collaborators and checker = example_checker
          and interfaceType = 3 and x = member_f_B and y = member_g_A
          and conflictingInterfaceType = 2
          and getRange = "\<lambda>_. NewRangeFromPositioned \<lparr>Identifier = ''C'', Pos = 1\<rparr>"]
        duplicate_member_rule [where C = example_collaborators and checker = example_checker
          and interfaceType = 1 and x = member_g_C and y = member_g_A
          and conflictingInterfaceType = 2
          and getRange = "\<lambda>_. NewRangeFromPositioned \<lparr>Identifier = ''g'', Pos = 3\<rparr>"]
  by (simp add: example_collaborators_def example_checker_def member_f_A_def member_f_B_def
        member_g_A_def member_g_C_def)

lemma checkInterfaceFunctions_fold:
  "checkInterfaceFunctions C funcs selfType declarationKind selfDocString checker =
     fold (checkInterfaceFunction C selfType declarationKind selfDocString) funcs checker"
  by (induction funcs arbitrary: checker) simp_all

text \<open>
  Claim C5. For a function of an interface: a block with statements is checked with
  \<open>mustExit\<close> and \<open>checkResourceLoss\<close> set and no error is reported here; a block that is
  present, has no statements, no pre-conditions and no post-conditions adds exactly one
  \<open>InvalidImplementationError\<close> with the container's declaration kind and the kind
  "function", and the function is then checked with both options unset; without a
  block, or with a block that holds conditions only, nothing is reported and both
  options stay unset. \<open>checkInterfaceFunctions\<close> does this for each function in turn.
\<close>

theorem interface_function_body_rule:
  "(\<forall>block. FunctionBlock func = Some block \<and> HasStatements block \<longrightarrow>
      checkInterfaceFunction C selfType declarationKind selfDocString func checker =
        leaveValueScope C (FunctionEndPosition func) False
          (visitFunctionDeclaration C func
             \<lparr>mustExit = True, declareFunction = False, checkResourceLoss = True\<rparr>
             (declareSelfValue C selfType selfDocString (enterValueScope C checker))))
   \<and> (\<forall>block. FunctionBlock func = Some block \<and> \<not> HasStatements block
          \<and> PreConditions_IsEmpty block \<and> PostConditions_IsEmpty block \<longrightarrow>
      checkInterfaceFunction C selfType declarationKind selfDocString func checker =
        leaveValueScope C (FunctionEndPosition func) False
          (visitFunctionDeclaration C func
             \<lparr>mustExit = False, declareFunction = False, checkResourceLoss = False\<rparr>
             ((declareSelfValue C selfType selfDocString (enterValueScope C checker))
                \<lparr>errors :=
                   errors (declareSelfValue C selfType selfDocString (enterValueScope C checker))
                   @ [InvalidImplementationError (StartPosition block) declarationKind
                        (DeclarationKindFunction C)]\<rparr>)))
   \<and> (FunctionBlock func = None
        \<or> (\<exists>block. FunctionBlock func = Some block \<and> \<not> HasStatements block
              \<and> \<not> (PreConditions_IsEmpty block \<and> PostConditions_IsEmpty block)) \<longrightarrow>
      checkInterfaceFunction C selfType declarationKind selfDocString func checker =
        leaveValueScope C (FunctionEndPosition func) False
          (visitFunctionDeclaration C func
             \<lparr>mustExit = False, declareFunction = False, checkResourceLoss = False\<rparr>
             (declareSelfValue C selfType selfDocString (enterValueScope C checker))))
   \<and> checkInterfaceFunctions C funcs selfType declarationKind selfDocString checker =
       fold (checkInterfaceFunction C selfType declarationKind selfDocString) funcs checker"
  by (auto simp: checkInterfaceFunction_def report_Some checkInterfaceFunctions_fold Let_def)


text \<open>
  The four shapes of a function body, checked for the interface \<open>C\<close>.
\<close>

theorem interface_function_body_rule_witness:
  "errors (checkInterfaceFunction example_collaborators (InterfaceTypeRef 1) 22 []
             (example_function (Some \<lparr>StartPosition = 8, HasStatements = True,
                 PreConditions_IsEmpty = True, PostConditions_IsEmpty = True\<rparr>))
             example_checker) = []
   \<and> errors (checkInterfaceFunction example_collaborators (InterfaceTypeRef 1) 22 []
             (example_function (Some \<lparr>StartPosition = 8, HasStatements = False,
                 PreConditions_IsEmpty = True, PostConditions_IsEmpty = True\<rparr>))
             example_checker) = [InvalidImplementationError 8 22 4]
   \<and> errors (checkInterfaceFunction example_collaborators (InterfaceTypeRef 1) 22 []
             (example_function None) example_checker) = []
   \<and> errors (checkInterfaceFunction example_collaborators (InterfaceTypeRef 1) 22 []
             (example_function (Some \<lparr>StartPosition = 8, HasStatements = False,
                 PreConditions_IsEmpty = False, PostConditions_IsEmpty = True\<rparr>))
             example_checker) = []"
  using interface_function_body_rule [where C = example_collaborators
          and selfType = "InterfaceTypeRef 1" and declarationKind = 22 and selfDocString = "[]"
          and checker = example_checker and funcs = "[]"
          and func = "example_function (Some \<lparr>StartPosition = 8, HasStatements = True,
                 PreConditions_IsEmpty = True, PostConditions_IsEmpty = True\<rparr>)"]
        interface_function_body_rule [where C = example_collaborators
          and selfType = "InterfaceTypeRef 1" and declarationKind = 22 and selfDocString = "[]"
          and checker = example_checker and funcs = "[]"
          and func = "example_function (Some \<lparr>StartPosition = 8, HasStatements = False,
                 PreConditions_IsEmpty = True, PostConditions_IsEmpty = True\<rparr>)"]
        interface_function_body_rule [where C = example_collaborators
          and selfType = "InterfaceTypeRef 1" and declarationKind = 22 and selfDocString = "[]"
          and checker = example_checker and funcs = "[]"
          and func = "example_function None"]
        interface_function_body_rule [where C = example_collaborators
          and selfType = "InterfaceTypeRef 1" and declarationKind = 22 and selfDocString = "[]"
          and checker = example_checker and funcs = "[]"
          and func = "example_function (Some \<lparr>StartPosition = 8, HasStatements = False,
                 PreConditions_IsEmpty = False, PostConditions_IsEmpty = True\<rparr>)"]
  by (simp add: example_function_def example_collaborators_def example_checker_def)


lemma checkDuplicateInterfaceMembers_interfaceTypes [simp]:
  "interfaceTypes (checkDuplicateInterfaceMembers C interfaceType x conflictingInterfaceType y
                     getRange checker) = interfaceTypes checker"
  by (simp add: checkDuplicateInterfaceMembers_def report_Some Let_def)












subsection \<open>declareInterfaceType\<close>

lemma declareInterfaceType_record_result:
  assumes occ: "\<And>name v s. interfaceTypes (recordVariableDeclarationOccurrence C name v s) (nextType checker)
                   = interfaceTypes s (nextType checker)"
      and conf: "\<And>s. interfaceTypes (snd (explicitInterfaceConformances C declaration (nextType checker) s))
                     (nextType checker) = interfaceTypes s (nextType checker)"
  shows "\<exists>checker1 t.
           declareInterfaceType_record C declaration checker = Inr (nextType checker, checker1)
         \<and> InterfaceDeclarationTypes (Elaboration checker1) (Decl_ptr declaration)
             = Some (nextType checker)
         \<and> InterfaceTypeDeclarations (Elaboration checker1) (nextType checker)
             = Some (Decl_ptr declaration)
         \<and> interfaceTypes checker1 (nextType checker) = Some t
         \<and> TypeLocation t = CheckerLocation checker
         \<and> TypeIdentifier t = Identifier (Decl_Identifier declaration)
         \<and> TypeCompositeKind t = Decl_CompositeKind declaration
         \<and> NestedTypes t = []"
proof -
  let ?p = "nextType checker"
  let ?new = "\<lparr>TypeLocation = CheckerLocation checker,
                   TypeIdentifier = Identifier (Decl_Identifier declaration),
                   TypeCompositeKind = Decl_CompositeKind declaration,
                   NestedTypes = [],
                   Members = [],
                   Fields = [],
                   InitializerParameters = [],
                   ExplicitInterfaceConformances = [],
                   containerType = None\<rparr>"
  let ?checker1 = "checker\<lparr>interfaceTypes := (interfaceTypes checker)(?p \<mapsto> ?new),
                          nextType := Suc ?p\<rparr>"
  obtain variable err activations where dt:
    "declareType C
              \<lparr>td_identifier = Decl_Identifier declaration,
               td_ty = InterfaceTypeRef ?p,
               td_declarationKind = Decl_DeclarationKind C declaration,
               td_access = Decl_Access declaration,
               td_docString = Decl_DocString declaration,
               td_allowOuterScopeShadowing = False\<rparr>
              (typeActivations ?checker1) = ((variable, err), activations)"
    by (metis prod.exhaust)
  let ?checker2 = "report err (?checker1\<lparr>typeActivations := activations\<rparr>)"
  let ?checker3 = "(if PositionInfo ?checker2
             then (case variable of
                     None \<Rightarrow> ?checker2
                   | Some v \<Rightarrow>
                       recordVariableDeclarationOccurrence C (Identifier (Decl_Identifier declaration)) v ?checker2)
             else ?checker2)"
  obtain conformances checker4 where ec:
    "explicitInterfaceConformances C declaration ?p ?checker3 = (conformances, checker4)"
    by (metis prod.exhaust)
  have h2: "interfaceTypes ?checker2 ?p = Some ?new"
    by (cases err) (simp_all add: report_def)
  have h3: "interfaceTypes ?checker3 ?p = Some ?new"
    using h2 occ by (simp split: option.splits)
  have h4: "interfaceTypes checker4 ?p = Some ?new"
    using conf [of ?checker3] ec h3 by simp
  have "declareInterfaceType_record C declaration checker =
          Inr (?p, checker4
                    \<lparr>interfaceTypes := (interfaceTypes checker4)
                       (?p \<mapsto> ?new\<lparr>ExplicitInterfaceConformances := conformances\<rparr>),
                     Elaboration := (Elaboration checker4)
                       \<lparr>InterfaceDeclarationTypes :=
                          (InterfaceDeclarationTypes (Elaboration checker4))
                            (Decl_ptr declaration \<mapsto> ?p),
                        InterfaceTypeDeclarations :=
                          (InterfaceTypeDeclarations (Elaboration checker4))
                            (?p \<mapsto> Decl_ptr declaration)\<rparr>\<rparr>)"
    unfolding declareInterfaceType_record_def Let_def dt prod.case ec h4 option.case ..
  then show ?thesis by simp
qed


lemma storeGrows_refl: "storeGrows p s s"
  by (simp add: storeGrows_def)

lemma storeGrows_trans:
  assumes "storeGrows p s s'" and "storeGrows p s' s''"
  shows "storeGrows p s s''"
proof -
  have eq: "errors s'' = errors s
     \<and> Elaboration s'' = Elaboration s
     \<and> containerTypes s'' = containerTypes s
     \<and> nextType s'' = nextType s
     \<and> CheckerLocation s'' = CheckerLocation s
     \<and> PositionInfo s'' = PositionInfo s
     \<and> typeActivations s'' = typeActivations s
     \<and> collaboratorState s'' = collaboratorState s"
    using assms by (simp add: storeGrows_def)
  have a1: "\<forall>q. (interfaceTypes s' q = None) = (interfaceTypes s q = None)"
    and a2: "\<forall>q. (compositeTypes s' q = None) = (compositeTypes s q = None)"
    and a3: "\<forall>q obj obj'. interfaceTypes s q = Some obj \<longrightarrow> interfaceTypes s' q = Some obj' \<longrightarrow>
            TypeLocation obj' = TypeLocation obj
          \<and> TypeIdentifier obj' = TypeIdentifier obj
          \<and> TypeCompositeKind obj' = TypeCompositeKind obj
          \<and> fst ` set (NestedTypes obj) \<subseteq> fst ` set (NestedTypes obj')
          \<and> (containerType obj = Some (InterfaceTypeRef p)
               \<longrightarrow> containerType obj' = Some (InterfaceTypeRef p))"
    and a4: "\<forall>q obj obj'. compositeTypes s q = Some obj \<longrightarrow> compositeTypes s' q = Some obj' \<longrightarrow>
            CompositeIdentifier obj' = CompositeIdentifier obj
          \<and> CompositeCompositeKind obj' = CompositeCompositeKind obj
          \<and> (compositeContainerType obj = Some (InterfaceTypeRef p)
               \<longrightarrow> compositeContainerType obj' = Some (InterfaceTypeRef p))"
    using assms(1) unfolding storeGrows_def by blast+
  have b1: "\<forall>q. (interfaceTypes s'' q = None) = (interfaceTypes s' q = None)"
    and b2: "\<forall>q. (compositeTypes s'' q = None) = (compositeTypes s' q = None)"
    and b3: "\<forall>q obj obj'. interfaceTypes s' q = Some obj \<longrightarrow> interfaceTypes s'' q = Some obj' \<longrightarrow>
            TypeLocation obj' = TypeLocation obj
          \<and> TypeIdentifier obj' = TypeIdentifier obj
          \<and> TypeCompositeKind obj' = TypeCompositeKind obj
          \<and> fst ` set (NestedTypes obj) \<subseteq> fst ` set (NestedTypes obj')
          \<and> (containerType obj = Some (InterfaceTypeRef p)
               \<longrightarrow> containerType obj' = Some (InterfaceTypeRef p))"
    and b4: "\<forall>q obj obj'. compositeTypes s' q = Some obj \<longrightarrow> compositeTypes s'' q = Some obj' \<longrightarrow>
            CompositeIdentifier obj' = CompositeIdentifier obj
          \<and> CompositeCompositeKind obj' = CompositeCompositeKind obj
          \<and> (compositeContainerType obj = Some (InterfaceTypeRef p)
               \<longrightarrow> compositeContainerType obj' = Some (InterfaceTypeRef p))"
    using assms(2) unfolding storeGrows_def by blast+
  have c3: "TypeLocation obj'' = TypeLocation obj
          \<and> TypeIdentifier obj'' = TypeIdentifier obj
          \<and> TypeCompositeKind obj'' = TypeCompositeKind obj
          \<and> fst ` set (NestedTypes obj) \<subseteq> fst ` set (NestedTypes obj'')
          \<and> (containerType obj = Some (InterfaceTypeRef p)
               \<longrightarrow> containerType obj'' = Some (InterfaceTypeRef p))"
    if "interfaceTypes s q = Some obj" and "interfaceTypes s'' q = Some obj''" for q obj obj''
  proof -
    have "interfaceTypes s' q \<noteq> None"
      using a1 that(1) by simp
    then obtain obj' where m: "interfaceTypes s' q = Some obj'"
      by blast
    from a3 that(1) m have 1: "TypeLocation obj' = TypeLocation obj
          \<and> TypeIdentifier obj' = TypeIdentifier obj
          \<and> TypeCompositeKind obj' = TypeCompositeKind obj
          \<and> fst ` set (NestedTypes obj) \<subseteq> fst ` set (NestedTypes obj')
          \<and> (containerType obj = Some (InterfaceTypeRef p)
               \<longrightarrow> containerType obj' = Some (InterfaceTypeRef p))" by blast
    from b3 m that(2) have 2: "TypeLocation obj'' = TypeLocation obj'
          \<and> TypeIdentifier obj'' = TypeIdentifier obj'
          \<and> TypeCompositeKind obj'' = TypeCompositeKind obj'
          \<and> fst ` set (NestedTypes obj') \<subseteq> fst ` set (NestedTypes obj'')
          \<and> (containerType obj' = Some (InterfaceTypeRef p)
               \<longrightarrow> containerType obj'' = Some (InterfaceTypeRef p))" by blast
    from 1 2 show ?thesis by auto
  qed
  have c4: "CompositeIdentifier obj'' = CompositeIdentifier obj
          \<and> CompositeCompositeKind obj'' = CompositeCompositeKind obj
          \<and> (compositeContainerType obj = Some (InterfaceTypeRef p)
               \<longrightarrow> compositeContainerType obj'' = Some (InterfaceTypeRef p))"
    if "compositeTypes s q = Some obj" and "compositeTypes s'' q = Some obj''" for q obj obj''
  proof -
    have "compositeTypes s' q \<noteq> None"
      using a2 that(1) by simp
    then obtain obj' where m: "compositeTypes s' q = Some obj'"
      by blast
    from a4 that(1) m have 1: "CompositeIdentifier obj' = CompositeIdentifier obj
          \<and> CompositeCompositeKind obj' = CompositeCompositeKind obj
          \<and> (compositeContainerType obj = Some (InterfaceTypeRef p)
               \<longrightarrow> compositeContainerType obj' = Some (InterfaceTypeRef p))" by blast
    from b4 m that(2) have 2: "CompositeIdentifier obj'' = CompositeIdentifier obj'
          \<and> CompositeCompositeKind obj'' = CompositeCompositeKind obj'
          \<and> (compositeContainerType obj' = Some (InterfaceTypeRef p)
               \<longrightarrow> compositeContainerType obj'' = Some (InterfaceTypeRef p))" by blast
    from 1 2 show ?thesis by auto
  qed
  have d1: "\<forall>q. (interfaceTypes s'' q = None) = (interfaceTypes s q = None)"
    using a1 b1 by simp
  have d2: "\<forall>q. (compositeTypes s'' q = None) = (compositeTypes s q = None)"
    using a2 b2 by simp
  show ?thesis
    unfolding storeGrows_def
    using eq d1 d2 c3 c4 by blast
qed

lemma OrderedMap_Set_keys: "fst ` set (OrderedMap_Set k v xs) = insert k (fst ` set xs)"
  by (induction xs) force+

lemma OrderedMap_Set_map_of: "map_of (OrderedMap_Set k v xs) = (map_of xs)(k \<mapsto> v)"
  by (induction xs) auto


lemma key_in_keys: "(k, v) \<in> set xs \<Longrightarrow> k \<in> fst ` set xs"
  by force

lemma storeGrows_allocated:
  "storeGrows p s s' \<Longrightarrow> interfaceTypes s q \<noteq> None \<Longrightarrow> interfaceTypes s' q \<noteq> None"
  "storeGrows p s s' \<Longrightarrow> compositeTypes s q \<noteq> None \<Longrightarrow> compositeTypes s' q \<noteq> None"
  by (simp_all add: storeGrows_def)

lemma linkedInterface_stable:
  assumes "linkedInterface p n s" and g: "storeGrows p s s'"
  shows "linkedInterface p n s'"
proof -
  from assms(1) obtain obj t where o: "interfaceTypes s n = Some obj"
      "containerType obj = Some (InterfaceTypeRef p)"
      "interfaceTypes s p = Some t" "TypeIdentifier obj \<in> fst ` set (NestedTypes t)"
    unfolding linkedInterface_def by blast
  obtain obj' where o': "interfaceTypes s' n = Some obj'"
    using storeGrows_allocated(1) [OF g, of n] o(1) by auto
  obtain t' where t': "interfaceTypes s' p = Some t'"
    using storeGrows_allocated(1) [OF g, of p] o(3) by auto
  have 1: "TypeIdentifier obj' = TypeIdentifier obj \<and> containerType obj' = Some (InterfaceTypeRef p)"
    using g o(1,2) o' unfolding storeGrows_def by blast
  have 2: "fst ` set (NestedTypes t) \<subseteq> fst ` set (NestedTypes t')"
    using g o(3) t' unfolding storeGrows_def by blast
  show ?thesis
    unfolding linkedInterface_def using o' t' 1 2 o(4) by auto
qed

lemma linkedComposite_stable:
  assumes "linkedComposite p n s" and g: "storeGrows p s s'"
  shows "linkedComposite p n s'"
proof -
  from assms(1) obtain obj t where o: "compositeTypes s n = Some obj"
      "compositeContainerType obj = Some (InterfaceTypeRef p)"
      "interfaceTypes s p = Some t" "CompositeIdentifier obj \<in> fst ` set (NestedTypes t)"
    unfolding linkedComposite_def by blast
  obtain obj' where o': "compositeTypes s' n = Some obj'"
    using storeGrows_allocated(2) [OF g, of n] o(1) by auto
  obtain t' where t': "interfaceTypes s' p = Some t'"
    using storeGrows_allocated(1) [OF g, of p] o(3) by auto
  have 1: "CompositeIdentifier obj' = CompositeIdentifier obj
           \<and> compositeContainerType obj' = Some (InterfaceTypeRef p)"
    using g o(1,2) o' unfolding storeGrows_def by blast
  have 2: "fst ` set (NestedTypes t) \<subseteq> fst ` set (NestedTypes t')"
    using g o(3) t' unfolding storeGrows_def by blast
  show ?thesis
    unfolding linkedComposite_def using o' t' 1 2 o(4) by auto
qed

lemma linkNestedInterfaceType_step:
  assumes "interfaceTypes s p \<noteq> None" and "interfaceTypes s n \<noteq> None"
  shows "\<exists>s'. linkNestedInterfaceType p n s = Inr s' \<and> storeGrows p s s' \<and> linkedInterface p n s'"
proof -
  from assms obtain t obj where t: "interfaceTypes s p = Some t" and obj: "interfaceTypes s n = Some obj"
    by auto
  let ?t1 = "t\<lparr>NestedTypes := OrderedMap_Set (TypeIdentifier obj) (InterfaceTypeRef n) (NestedTypes t)\<rparr>"
  let ?store1 = "(interfaceTypes s)(p \<mapsto> ?t1)"
  obtain obj1 where obj1: "?store1 n = Some obj1"
    and obj1_id: "TypeIdentifier obj1 = TypeIdentifier obj"
    using obj t by (cases "n = p") auto
  let ?s' = "s\<lparr>interfaceTypes := ?store1(n \<mapsto> obj1\<lparr>containerType := Some (InterfaceTypeRef p)\<rparr>)\<rparr>"
  have res: "linkNestedInterfaceType p n s = Inr ?s'"
    using t obj obj1 by (simp add: linkNestedInterfaceType_def Let_def)
  have grows: "storeGrows p s ?s'"
    unfolding storeGrows_def using t obj obj1
    by (auto simp: OrderedMap_Set_keys split: if_splits dest: key_in_keys)
  have linked: "linkedInterface p n ?s'"
    unfolding linkedInterface_def using t obj obj1 obj1_id
    by (cases "n = p") (auto simp: OrderedMap_Set_keys)
  show ?thesis using res grows linked by blast
qed

lemma linkNestedCompositeType_step:
  assumes "interfaceTypes s p \<noteq> None" and "compositeTypes s n \<noteq> None"
  shows "\<exists>s'. linkNestedCompositeType p n s = Inr s' \<and> storeGrows p s s' \<and> linkedComposite p n s'"
proof -
  from assms obtain t obj where t: "interfaceTypes s p = Some t" and obj: "compositeTypes s n = Some obj"
    by auto
  let ?s' = "s\<lparr>interfaceTypes := (interfaceTypes s)
                        (p \<mapsto>
                           t\<lparr>NestedTypes :=
                                OrderedMap_Set (CompositeIdentifier obj)
                                  (CompositeTypeRef n) (NestedTypes t)\<rparr>),
                      compositeTypes := (compositeTypes s)
                        (n \<mapsto>
                           obj\<lparr>compositeContainerType := Some (InterfaceTypeRef p)\<rparr>)\<rparr>"
  have res: "linkNestedCompositeType p n s = Inr ?s'"
    using t obj by (simp add: linkNestedCompositeType_def)
  have grows: "storeGrows p s ?s'"
    unfolding storeGrows_def using t obj
    by (auto simp: OrderedMap_Set_keys split: if_splits dest: key_in_keys)
  have linked: "linkedComposite p n ?s'"
    unfolding linkedComposite_def using t obj
    by (auto simp: OrderedMap_Set_keys)
  show ?thesis using res grows linked by blast
qed

lemma linkNestedInterfaceTypes_loop:
  assumes "interfaceTypes s p \<noteq> None" and "\<forall>n\<in>set nis. interfaceTypes s n \<noteq> None"
  shows "\<exists>s'. Foreach (linkNestedInterfaceType p) nis s = Inr s' \<and> storeGrows p s s'
              \<and> (\<forall>n\<in>set nis. linkedInterface p n s')"
  using assms
proof (induction nis arbitrary: s)
  case Nil
  then show ?case using storeGrows_refl by auto
next
  case (Cons n nis)
  obtain s1 where s1: "linkNestedInterfaceType p n s = Inr s1" "storeGrows p s s1"
      "linkedInterface p n s1"
    using linkNestedInterfaceType_step [of s p n] Cons.prems by auto
  have "interfaceTypes s1 p \<noteq> None" "\<forall>n\<in>set nis. interfaceTypes s1 n \<noteq> None"
    using storeGrows_allocated(1) [OF s1(2)] Cons.prems by auto
  then obtain s' where s': "Foreach (linkNestedInterfaceType p) nis s1 = Inr s'"
      "storeGrows p s1 s'" "\<forall>n\<in>set nis. linkedInterface p n s'"
    using Cons.IH by blast
  have "Foreach (linkNestedInterfaceType p) (n # nis) s = Inr s'"
    using s1(1) s'(1) by simp
  moreover have "storeGrows p s s'"
    using storeGrows_trans [OF s1(2) s'(2)] .
  moreover have "linkedInterface p n s'"
    using linkedInterface_stable [OF s1(3) s'(2)] .
  ultimately show ?case using s'(3) by auto
qed

lemma linkNestedCompositeTypes_loop:
  assumes "interfaceTypes s p \<noteq> None" and "\<forall>n\<in>set ncs. compositeTypes s n \<noteq> None"
  shows "\<exists>s'. Foreach (linkNestedCompositeType p) ncs s = Inr s' \<and> storeGrows p s s'
              \<and> (\<forall>n\<in>set ncs. linkedComposite p n s')"
  using assms
proof (induction ncs arbitrary: s)
  case Nil
  then show ?case using storeGrows_refl by auto
next
  case (Cons n ncs)
  obtain s1 where s1: "linkNestedCompositeType p n s = Inr s1" "storeGrows p s s1"
      "linkedComposite p n s1"
    using linkNestedCompositeType_step [of s p n] Cons.prems by auto
  have "interfaceTypes s1 p \<noteq> None" "\<forall>n\<in>set ncs. compositeTypes s1 n \<noteq> None"
    using storeGrows_allocated [OF s1(2)] Cons.prems by auto
  then obtain s' where s': "Foreach (linkNestedCompositeType p) ncs s1 = Inr s'"
      "storeGrows p s1 s'" "\<forall>n\<in>set ncs. linkedComposite p n s'"
    using Cons.IH by blast
  have "Foreach (linkNestedCompositeType p) (n # ncs) s = Inr s'"
    using s1(1) s'(1) by simp
  moreover have "storeGrows p s s'"
    using storeGrows_trans [OF s1(2) s'(2)] .
  moreover have "linkedComposite p n s'"
    using linkedComposite_stable [OF s1(3) s'(2)] .
  ultimately show ?case using s'(3) by auto
qed


text \<open>
  Claim C10. Let the composite kind of the declaration not support interfaces, and let
  the functions that \<open>declareInterfaceType\<close> calls leave alone what it has built: the
  occurrence recorder and the conformance resolver keep the new type object, the value
  scope functions change nothing but their own state and the diagnostics, and the
  nested declaration resolver, called on the state it is called on here, keeps the two
  elaboration entries, the reported error and the new type object, and returns
  pointers to allocated types. Then \<open>declareInterfaceType\<close> returns the pointer to the
  type object it allocated, with no fault. Both elaboration entries are there in the
  state in which the kind is checked and are still there at the end; the
  \<open>InvalidInterfaceDeclarationError\<close> is among the diagnostics; the nested declarations
  that the resolver returned are recorded for the declaration; each nested interface
  and composite type has the new type as its container and its identifier among the
  keys of the new type's \<open>NestedTypes\<close>.
\<close>

theorem declareInterfaceType_unsupported_kind:
  assumes unsupported: "\<not> SupportsInterfaces C (Decl_CompositeKind declaration)"
    and occ: "\<And>name v s. interfaceTypes (recordVariableDeclarationOccurrence C name v s) (nextType checker)
                   = interfaceTypes s (nextType checker)"
    and conf: "\<And>s. interfaceTypes (snd (explicitInterfaceConformances C declaration (nextType checker) s))
                     (nextType checker) = interfaceTypes s (nextType checker)"
    and enter: "\<And>s. \<exists>x es. enterValueScope C s = s\<lparr>collaboratorState := x, errors := errors s @ es\<rparr>"
    and leave: "\<And>s. \<exists>x es. leaveValueScope C (Decl_EndPosition declaration) False s
                         = s\<lparr>collaboratorState := x, errors := errors s @ es\<rparr>"
    and nested: "\<forall>checker1 nd nis ncs s3.
        declareInterfaceType_record C declaration checker = Inr (nextType checker, checker1) \<longrightarrow>
        declareNestedDeclarations C
            (Decl_CompositeKind declaration) (Decl_DeclarationKind C declaration)
            (Decl_Composites declaration) (Decl_Interfaces declaration)
            (enterValueScope C
               ((report (Some (InvalidInterfaceDeclarationError (Decl_CompositeKind declaration)
                                 (NewRangeFromPositioned (Decl_Identifier declaration)))) checker1)
                  \<lparr>typeActivations := Enter C (typeActivations checker1)\<rparr>))
          = ((nd, nis, ncs), s3) \<longrightarrow>
        InterfaceDeclarationTypes (Elaboration s3) (Decl_ptr declaration) = Some (nextType checker)
        \<and> InterfaceTypeDeclarations (Elaboration s3) (nextType checker) = Some (Decl_ptr declaration)
        \<and> InvalidInterfaceDeclarationError (Decl_CompositeKind declaration)
              (NewRangeFromPositioned (Decl_Identifier declaration)) \<in> set (errors s3)
        \<and> interfaceTypes s3 (nextType checker) = interfaceTypes checker1 (nextType checker)
        \<and> (\<forall>n\<in>set nis. interfaceTypes s3 n \<noteq> None)
        \<and> (\<forall>n\<in>set ncs. compositeTypes s3 n \<noteq> None)"
  shows "\<exists>checker1 checker' t.
      declareInterfaceType_record C declaration checker = Inr (nextType checker, checker1)
    \<and> InterfaceDeclarationTypes (Elaboration checker1) (Decl_ptr declaration) = Some (nextType checker)
    \<and> InterfaceTypeDeclarations (Elaboration checker1) (nextType checker) = Some (Decl_ptr declaration)
    \<and> declareInterfaceType C declaration checker = Inr (nextType checker, checker')
    \<and> InvalidInterfaceDeclarationError (Decl_CompositeKind declaration)
          (NewRangeFromPositioned (Decl_Identifier declaration)) \<in> set (errors checker')
    \<and> InterfaceDeclarationTypes (Elaboration checker') (Decl_ptr declaration) = Some (nextType checker)
    \<and> InterfaceTypeDeclarations (Elaboration checker') (nextType checker) = Some (Decl_ptr declaration)
    \<and> interfaceTypes checker' (nextType checker) = Some t
    \<and> TypeLocation t = CheckerLocation checker
    \<and> TypeIdentifier t = Identifier (Decl_Identifier declaration)
    \<and> TypeCompositeKind t = Decl_CompositeKind declaration
    \<and> (case declareNestedDeclarations C
              (Decl_CompositeKind declaration) (Decl_DeclarationKind C declaration)
              (Decl_Composites declaration) (Decl_Interfaces declaration)
              (enterValueScope C
                 ((report (Some (InvalidInterfaceDeclarationError (Decl_CompositeKind declaration)
                                   (NewRangeFromPositioned (Decl_Identifier declaration)))) checker1)
                    \<lparr>typeActivations := Enter C (typeActivations checker1)\<rparr>)) of
          ((nestedDeclarations, nestedInterfaceTypes, nestedCompositeTypes), s3) \<Rightarrow>
            InterfaceNestedDeclarations (Elaboration checker') (Decl_ptr declaration)
              = Some nestedDeclarations
            \<and> (\<forall>n\<in>set nestedInterfaceTypes.
                 \<exists>nestedType. interfaceTypes checker' n = Some nestedType
                   \<and> containerType nestedType = Some (InterfaceTypeRef (nextType checker))
                   \<and> TypeIdentifier nestedType \<in> fst ` set (NestedTypes t))
            \<and> (\<forall>n\<in>set nestedCompositeTypes.
                 \<exists>nestedType. compositeTypes checker' n = Some nestedType
                   \<and> compositeContainerType nestedType = Some (InterfaceTypeRef (nextType checker))
                   \<and> CompositeIdentifier nestedType \<in> fst ` set (NestedTypes t)))"
proof -
  let ?p = "nextType checker"
  let ?d = "Decl_ptr declaration"
  let ?err = "InvalidInterfaceDeclarationError (Decl_CompositeKind declaration)
                (NewRangeFromPositioned (Decl_Identifier declaration))"
  obtain checker1 t1 where rec: "declareInterfaceType_record C declaration checker = Inr (?p, checker1)"
    and e1: "InterfaceDeclarationTypes (Elaboration checker1) ?d = Some ?p"
            "InterfaceTypeDeclarations (Elaboration checker1) ?p = Some ?d"
    and t1: "interfaceTypes checker1 ?p = Some t1"
            "TypeLocation t1 = CheckerLocation checker"
            "TypeIdentifier t1 = Identifier (Decl_Identifier declaration)"
            "TypeCompositeKind t1 = Decl_CompositeKind declaration"
    using declareInterfaceType_record_result [OF occ conf] by blast
  let ?k = "report (Some ?err) checker1"
  let ?s1 = "?k\<lparr>typeActivations := Enter C (typeActivations ?k)\<rparr>"
  let ?s2 = "enterValueScope C ?s1"
  have s1_eq: "?s1 = ?k\<lparr>typeActivations := Enter C (typeActivations checker1)\<rparr>"
    by (simp add: report_Some)
  obtain nd nis ncs s3 where dn:
    "declareNestedDeclarations C
            (Decl_CompositeKind declaration) (Decl_DeclarationKind C declaration)
            (Decl_Composites declaration) (Decl_Interfaces declaration) ?s2 = ((nd, nis, ncs), s3)"
    by (metis prod.exhaust)
  have f3: "InterfaceDeclarationTypes (Elaboration s3) ?d = Some ?p"
      "InterfaceTypeDeclarations (Elaboration s3) ?p = Some ?d"
      "?err \<in> set (errors s3)"
      "interfaceTypes s3 ?p = Some t1"
      "\<forall>n\<in>set nis. interfaceTypes s3 n \<noteq> None"
      "\<forall>n\<in>set ncs. compositeTypes s3 n \<noteq> None"
    using nested [rule_format, OF rec, of nd nis ncs s3] dn t1(1) unfolding s1_eq by simp_all
  let ?s4 = "s3\<lparr>Elaboration := (Elaboration s3)
               \<lparr>InterfaceNestedDeclarations :=
                  (InterfaceNestedDeclarations (Elaboration s3))(?d \<mapsto> nd)\<rparr>\<rparr>"
  have a4: "interfaceTypes ?s4 ?p \<noteq> None" "\<forall>n\<in>set nis. interfaceTypes ?s4 n \<noteq> None"
    using f3 by simp_all
  obtain s5 where s5: "Foreach (linkNestedInterfaceType ?p) nis ?s4 = Inr s5"
      "storeGrows ?p ?s4 s5" "\<forall>n\<in>set nis. linkedInterface ?p n s5"
    using linkNestedInterfaceTypes_loop [OF a4] by blast
  have a5: "interfaceTypes s5 ?p \<noteq> None" "\<forall>n\<in>set ncs. compositeTypes s5 n \<noteq> None"
    using storeGrows_allocated [OF s5(2)] f3 by simp_all
  obtain s6 where s6: "Foreach (linkNestedCompositeType ?p) ncs s5 = Inr s6"
      "storeGrows ?p s5 s6" "\<forall>n\<in>set ncs. linkedComposite ?p n s6"
    using linkNestedCompositeTypes_loop [OF a5] by blast
  have g46: "storeGrows ?p ?s4 s6"
    using storeGrows_trans [OF s5(2) s6(2)] .
  have li6: "\<forall>n\<in>set nis. linkedInterface ?p n s6"
    using s5(3) linkedInterface_stable [OF _ s6(2)] by blast
  obtain x es where lv: "leaveValueScope C (Decl_EndPosition declaration) False s6
                           = s6\<lparr>collaboratorState := x, errors := errors s6 @ es\<rparr>"
    using leave by blast
  let ?s8 = "(s6\<lparr>collaboratorState := x, errors := errors s6 @ es\<rparr>)
               \<lparr>typeActivations := Leave C (Decl_EndPosition declaration) (typeActivations s6)\<rparr>"
  have nested_res: "declareInterfaceType_nested C declaration ?p ?k = Inr (?p, ?s8)"
    unfolding declareInterfaceType_nested_def Let_def dn prod.case s5(1) s6(1) sum.case lv
    by simp
  have res: "declareInterfaceType C declaration checker = Inr (?p, ?s8)"
    unfolding declareInterfaceType_def rec sum.case prod.case Let_def
    using unsupported nested_res by simp
  have el6: "Elaboration s6 = Elaboration ?s4" and er6: "errors s6 = errors ?s4"
    using g46 by (simp_all add: storeGrows_def)
  obtain t6 where t6: "interfaceTypes s6 ?p = Some t6"
    using storeGrows_allocated(1) [OF g46 a4(1)] by blast
  have t6_id: "TypeLocation t6 = TypeLocation t1 \<and> TypeIdentifier t6 = TypeIdentifier t1
               \<and> TypeCompositeKind t6 = TypeCompositeKind t1"
  proof -
    have "interfaceTypes ?s4 ?p = Some t1" using f3(4) by simp
    then show ?thesis using g46 t6 unfolding storeGrows_def by blast
  qed
  have c1: "?err \<in> set (errors ?s8)"
    using f3(3) er6 by simp
  have c2: "InterfaceDeclarationTypes (Elaboration ?s8) ?d = Some ?p"
    "InterfaceTypeDeclarations (Elaboration ?s8) ?p = Some ?d"
    "InterfaceNestedDeclarations (Elaboration ?s8) ?d = Some nd"
    using f3(1,2) el6 by simp_all
  have c3: "interfaceTypes ?s8 ?p = Some t6" using t6 by simp
  have c4: "\<forall>n\<in>set nis.
                 \<exists>nestedType. interfaceTypes ?s8 n = Some nestedType
                   \<and> containerType nestedType = Some (InterfaceTypeRef ?p)
                   \<and> TypeIdentifier nestedType \<in> fst ` set (NestedTypes t6)"
    using li6 t6 unfolding linkedInterface_def by auto
  have c5: "\<forall>n\<in>set ncs.
                 \<exists>nestedType. compositeTypes ?s8 n = Some nestedType
                   \<and> compositeContainerType nestedType = Some (InterfaceTypeRef ?p)
                   \<and> CompositeIdentifier nestedType \<in> fst ` set (NestedTypes t6)"
    using s6(3) t6 unfolding linkedComposite_def by auto
  have last: "(case declareNestedDeclarations C
              (Decl_CompositeKind declaration) (Decl_DeclarationKind C declaration)
              (Decl_Composites declaration) (Decl_Interfaces declaration)
              (enterValueScope C
                 ((report (Some ?err) checker1)
                    \<lparr>typeActivations := Enter C (typeActivations checker1)\<rparr>)) of
          ((nestedDeclarations, nestedInterfaceTypes, nestedCompositeTypes), s3) \<Rightarrow>
            InterfaceNestedDeclarations (Elaboration ?s8) ?d = Some nestedDeclarations
            \<and> (\<forall>n\<in>set nestedInterfaceTypes.
                 \<exists>nestedType. interfaceTypes ?s8 n = Some nestedType
                   \<and> containerType nestedType = Some (InterfaceTypeRef ?p)
                   \<and> TypeIdentifier nestedType \<in> fst ` set (NestedTypes t6))
            \<and> (\<forall>n\<in>set nestedCompositeTypes.
                 \<exists>nestedType. compositeTypes ?s8 n = Some nestedType
                   \<and> compositeContainerType nestedType = Some (InterfaceTypeRef ?p)
                   \<and> CompositeIdentifier nestedType \<in> fst ` set (NestedTypes t6)))"
    using dn c2(3) c4 c5 unfolding s1_eq by simp
  have ids: "TypeLocation t6 = CheckerLocation checker"
      "TypeIdentifier t6 = Identifier (Decl_Identifier declaration)"
      "TypeCompositeKind t6 = Decl_CompositeKind declaration"
    using t6_id t1(2,3,4) by simp_all
  show ?thesis
    by (rule exI [of _ checker1], rule exI [of _ ?s8], rule exI [of _ t6])
       (intro conjI rec e1 res c1 c2(1) c2(2) c3 ids last)
qed


lemma example_declareInterfaceType_result:
  "declareInterfaceType example_collaborators example_enum_declaration example_checker
      = Inr (10, example_checker
               \<lparr>errors := [InvalidInterfaceDeclarationError 5
                              (NewRangeFromPositioned \<lparr>Identifier = ''E'', Pos = 200\<rparr>)],
                Elaboration :=
                  \<lparr>InterfaceDeclarationTypes = [200 \<mapsto> 10, 201 \<mapsto> 11],
                   InterfaceTypeDeclarations = [10 \<mapsto> 200, 11 \<mapsto> 201],
                   InterfaceNestedDeclarations =
                     [200 \<mapsto> map_of [(''N'',
                        \<lparr>DeclarationIdentifier = Some \<lparr>Identifier = ''N'', Pos = 201\<rparr>,
                         DeclarationKind = 25,
                         DeclarationAccess = Primitive AccessPublic,
                         DeclarationDocString = []\<rparr>)]]\<rparr>,
                interfaceTypes := (interfaceTypes example_checker)
                  (10 \<mapsto> \<lparr>TypeLocation = 0, TypeIdentifier = ''E'', TypeCompositeKind = 5,
                            NestedTypes = [(''N'', InterfaceTypeRef 11)], Members = [], Fields = [],
                            InitializerParameters = [], ExplicitInterfaceConformances = [],
                            containerType = None\<rparr>,
                   11 \<mapsto> \<lparr>TypeLocation = 0, TypeIdentifier = ''N'', TypeCompositeKind = 5,
                            NestedTypes = [], Members = [], Fields = [],
                            InitializerParameters = [], ExplicitInterfaceConformances = [],
                            containerType = Some (InterfaceTypeRef 10)\<rparr>),
                nextType := 12\<rparr>)"
  by (simp add: declareInterfaceType_def declareInterfaceType_record_def
        declareInterfaceType_nested_def linkNestedInterfaceType_def report_def Let_def
        example_collaborators_def example_checker_def example_enum_declaration_def
        example_declaration_def)

text \<open>
  An interface declaration \<open>E\<close> of kind 5, which does not support interfaces, with a
  nested interface \<open>N\<close>: the type is allocated at 10 and returned, the error is reported,
  and \<open>N\<close> (allocated at 11) is linked to it.
\<close>

theorem declareInterfaceType_unsupported_kind_witness:
  "map_sum id fst (declareInterfaceType example_collaborators example_enum_declaration example_checker)
     = Inr 10
   \<and> map_sum id (errors \<circ> snd)
       (declareInterfaceType example_collaborators example_enum_declaration example_checker)
     = Inr [InvalidInterfaceDeclarationError 5 (NewRangeFromPositioned \<lparr>Identifier = ''E'', Pos = 200\<rparr>)]
   \<and> map_sum id (\<lambda>r. InterfaceDeclarationTypes (Elaboration (snd r)) 200)
       (declareInterfaceType example_collaborators example_enum_declaration example_checker)
     = Inr (Some 10)
   \<and> map_sum id (\<lambda>r. InterfaceTypeDeclarations (Elaboration (snd r)) 10)
       (declareInterfaceType example_collaborators example_enum_declaration example_checker)
     = Inr (Some 200)
   \<and> map_sum id (\<lambda>r. map_option NestedTypes (interfaceTypes (snd r) 10))
       (declareInterfaceType example_collaborators example_enum_declaration example_checker)
     = Inr (Some [(''N'', InterfaceTypeRef 11)])
   \<and> map_sum id (\<lambda>r. map_option containerType (interfaceTypes (snd r) 11))
       (declareInterfaceType example_collaborators example_enum_declaration example_checker)
     = Inr (Some (Some (InterfaceTypeRef 10)))"
proof -
  note defs = example_collaborators_def example_checker_def example_enum_declaration_def
    example_declaration_def
  have unsupported: "\<not> SupportsInterfaces example_collaborators
                        (Decl_CompositeKind example_enum_declaration)"
    by (simp add: defs)
  have occ: "\<And>name v s. interfaceTypes
                 (recordVariableDeclarationOccurrence example_collaborators name v s)
                 (nextType example_checker) = interfaceTypes s (nextType example_checker)"
    by (simp add: example_collaborators_def)
  have conf: "\<And>s. interfaceTypes
                 (snd (explicitInterfaceConformances example_collaborators example_enum_declaration
                         (nextType example_checker) s))
                 (nextType example_checker) = interfaceTypes s (nextType example_checker)"
    by (simp add: example_collaborators_def)
  have enter: "\<And>s. \<exists>x es. enterValueScope example_collaborators s
                         = s\<lparr>collaboratorState := x, errors := errors s @ es\<rparr>"
  proof -
    fix s :: "(nat, nat) Checker"
    have "enterValueScope example_collaborators s
            = s\<lparr>collaboratorState := Suc (collaboratorState s), errors := errors s @ []\<rparr>"
      by (simp add: example_collaborators_def)
    then show "\<exists>x es. enterValueScope example_collaborators s
                         = s\<lparr>collaboratorState := x, errors := errors s @ es\<rparr>" by blast
  qed
  have leave: "\<And>s. \<exists>x es. leaveValueScope example_collaborators
                           (Decl_EndPosition example_enum_declaration) False s
                         = s\<lparr>collaboratorState := x, errors := errors s @ es\<rparr>"
  proof -
    fix s :: "(nat, nat) Checker"
    have "leaveValueScope example_collaborators (Decl_EndPosition example_enum_declaration) False s
            = s\<lparr>collaboratorState := collaboratorState s - 1, errors := errors s @ []\<rparr>"
      by (simp add: example_collaborators_def)
    then show "\<exists>x es. leaveValueScope example_collaborators
                           (Decl_EndPosition example_enum_declaration) False s
                         = s\<lparr>collaboratorState := x, errors := errors s @ es\<rparr>" by blast
  qed
  have nested: "\<forall>checker1 nd nis ncs s3.
      declareInterfaceType_record example_collaborators example_enum_declaration example_checker
          = Inr (nextType example_checker, checker1) \<longrightarrow>
      declareNestedDeclarations example_collaborators
            (Decl_CompositeKind example_enum_declaration)
            (Decl_DeclarationKind example_collaborators example_enum_declaration)
            (Decl_Composites example_enum_declaration) (Decl_Interfaces example_enum_declaration)
            (enterValueScope example_collaborators
               ((report (Some (InvalidInterfaceDeclarationError
                                 (Decl_CompositeKind example_enum_declaration)
                                 (NewRangeFromPositioned (Decl_Identifier example_enum_declaration))))
                   checker1)
                  \<lparr>typeActivations := Enter example_collaborators (typeActivations checker1)\<rparr>))
          = ((nd, nis, ncs), s3) \<longrightarrow>
      InterfaceDeclarationTypes (Elaboration s3) (Decl_ptr example_enum_declaration)
          = Some (nextType example_checker)
        \<and> InterfaceTypeDeclarations (Elaboration s3) (nextType example_checker)
          = Some (Decl_ptr example_enum_declaration)
        \<and> InvalidInterfaceDeclarationError (Decl_CompositeKind example_enum_declaration)
              (NewRangeFromPositioned (Decl_Identifier example_enum_declaration)) \<in> set (errors s3)
        \<and> interfaceTypes s3 (nextType example_checker)
          = interfaceTypes checker1 (nextType example_checker)
        \<and> (\<forall>n\<in>set nis. interfaceTypes s3 n \<noteq> None)
        \<and> (\<forall>n\<in>set ncs. compositeTypes s3 n \<noteq> None)"
    by (auto simp: declareInterfaceType_record_def report_def Let_def defs)
  from declareInterfaceType_unsupported_kind
         [of example_collaborators example_enum_declaration example_checker,
          OF unsupported occ conf enter leave nested]
  obtain checker' where
    "declareInterfaceType example_collaborators example_enum_declaration example_checker
       = Inr (nextType example_checker, checker')"
    by blast
  then have "map_sum id fst
               (declareInterfaceType example_collaborators example_enum_declaration example_checker)
             = Inr 10"
    by (simp add: example_checker_def)
  moreover note example_declareInterfaceType_result
  ultimately show ?thesis
    by simp
qed


subsection \<open>The unreachable-state fault\<close>



























end
